theory Spec2Isabelle
  imports Complex_Main
begin

section \<open>Text, numbers and time as the agent sees them\<close>

text \<open>
  The agent of \<^verbatim>\<open>bot.py\<close> (class \<^verbatim>\<open>MarketCorrelationAgent\<close>) works on post texts.
  A text is a \<^typ>\<open>string\<close>; every character stands for one code point below 256, where
  Python's \<^verbatim>\<open>\d\<close> is exactly the ten ASCII digits.  A price is the exact decimal value of
  its digits (a \<^typ>\<open>rat\<close>): rounding, overflow and underflow of binary floating point are
  not part of the model.  Exceptions are values of \<open>py_error\<close>; all of them are subclasses of
  Python's \<^verbatim>\<open>Exception\<close>.
\<close>

datatype py_error =
    Timeout | ConnectionError | HTTPError | ValueError | KeyError
  | ZeroDivisionError | APIError | WebDriverError

definition is_digit :: "char \<Rightarrow> bool" where
  "is_digit c = (c \<in> set ''0123456789'')"

definition digit_val :: "char \<Rightarrow> nat" where
  "digit_val c = of_char c - 48"

text \<open>\<^verbatim>\<open>int(s)\<close> on a string of ASCII digits.\<close>

definition digits_val :: "string \<Rightarrow> nat" where
  "digits_val s = foldl (\<lambda>n c. 10 * n + digit_val c) 0 s"

text \<open>\<^verbatim>\<open>s.split(sep)\<close> for a one-character separator: never the empty list.\<close>

fun split_on :: "char \<Rightarrow> string \<Rightarrow> string list" where
  "split_on sep [] = [[]]"
| "split_on sep (c # cs) =
     (if c = sep then [] # split_on sep cs
      else (case split_on sep cs of
              [] \<Rightarrow> [[c]]
            | w # ws \<Rightarrow> (c # w) # ws))"

text \<open>
  \<^verbatim>\<open>float(s)\<close> on the text captured by \<^verbatim>\<open>[0-9,.]+\<close> after its commas are removed: digits
  with at most one point and at least one digit; anything else raises \<^verbatim>\<open>ValueError\<close>.
\<close>

definition py_float :: "string \<Rightarrow> py_error + rat" where
  "py_float s =
     (let ip = takeWhile is_digit s; rest = dropWhile is_digit s in
      case rest of
        [] \<Rightarrow> if ip = [] then Inl ValueError else Inr (of_nat (digits_val ip))
      | c # fp \<Rightarrow>
          if c = CHR ''.'' \<and> list_all is_digit fp \<and> (ip \<noteq> [] \<or> fp \<noteq> [])
          then Inr (of_nat (digits_val (ip @ fp)) / 10 ^ length fp)
          else Inl ValueError)"

subsection \<open>Dates and times\<close>

record datetime =
  year :: nat
  month :: nat
  day :: nat
  hour :: nat
  minute :: nat
  second :: nat

definition is_leap :: "nat \<Rightarrow> bool" where
  "is_leap y = (y mod 4 = 0 \<and> (y mod 100 \<noteq> 0 \<or> y mod 400 = 0))"

definition days_in_month :: "nat \<Rightarrow> nat \<Rightarrow> nat" where
  "days_in_month y m =
     (if m = 2 then (if is_leap y then 29 else 28)
      else if m \<in> {4, 6, 9, 11} then 30 else 31)"

definition days_before_year :: "nat \<Rightarrow> nat" where
  "days_before_year y = (y - 1) * 365 + (y - 1) div 4 - (y - 1) div 100 + (y - 1) div 400"

definition days_before_month :: "nat \<Rightarrow> nat \<Rightarrow> nat" where
  "days_before_month y m = sum_list (map (days_in_month y) [1..<m])"

text \<open>The proleptic Gregorian ordinal of a date (\<^verbatim>\<open>date.toordinal\<close>).\<close>

definition toordinal :: "datetime \<Rightarrow> nat" where
  "toordinal t = days_before_year (year t) + days_before_month (year t) (month t) + day t"

text \<open>
  \<^verbatim>\<open>(a - b).total_seconds()\<close> for two datetimes without microseconds: a signed number of
  seconds.
\<close>

definition total_seconds :: "datetime \<Rightarrow> datetime \<Rightarrow> int" where
  "total_seconds a b =
     (int (toordinal a) - int (toordinal b)) * 86400
     + (int (hour a) - int (hour b)) * 3600
     + (int (minute a) - int (minute b)) * 60
     + (int (second a) - int (second b))"

text \<open>
  One numeric field of the format \<^verbatim>\<open>%Y-%m-%d %H:%M:%S\<close>: the directive's pattern admits one
  or two digits (four for the year) inside the bounds given.
\<close>

definition field_ok :: "string \<Rightarrow> nat \<Rightarrow> nat \<Rightarrow> bool" where
  "field_ok f lo hi =
     (f \<noteq> [] \<and> list_all is_digit f \<and> length f \<le> 2 \<and> lo \<le> digits_val f \<and> digits_val f \<le> hi)"

text \<open>
  \<^verbatim>\<open>datetime.strptime(s, '%Y-%m-%d %H:%M:%S')\<close> on a text made of digits, hyphens and colons
  around exactly one blank, which is all the timestamp pattern of the agent captures.
  The directives accept month 1 to 12, day 1 to 31, hour 0 to 23, minute 0 to 59 and second
  0 to 61; the datetime constructor then refuses year 0, a day beyond the month's length and
  a second above 59.  Every refusal is a \<^verbatim>\<open>ValueError\<close>.
\<close>

definition strptime :: "string \<Rightarrow> py_error + datetime" where
  "strptime s =
     (case split_on CHR '' '' s of
        [dpart, tpart] \<Rightarrow>
          (case (split_on CHR ''-'' dpart, split_on CHR '':'' tpart) of
             ([y, m, d], [H, M, S]) \<Rightarrow>
               if length y = 4 \<and> list_all is_digit y \<and> field_ok m 1 12 \<and> field_ok d 1 31
                  \<and> field_ok H 0 23 \<and> field_ok M 0 59 \<and> field_ok S 0 61
               then
                 (if 1 \<le> digits_val y \<and> digits_val d \<le> days_in_month (digits_val y) (digits_val m)
                     \<and> digits_val S \<le> 59
                  then Inr \<lparr>year = digits_val y, month = digits_val m, day = digits_val d,
                            hour = digits_val H, minute = digits_val M, second = digits_val S\<rparr>
                  else Inl ValueError)
               else Inl ValueError
           | _ \<Rightarrow> Inl ValueError)
      | _ \<Rightarrow> Inl ValueError)"

section \<open>Field extraction\<close>

text \<open>
  \<^verbatim>\<open>re.search(lit + '([0-9,.]+)', text)\<close>: the leftmost place where the literal is followed by
  at least one price character; the group is the whole run of price characters there.
\<close>

definition price_char :: "char \<Rightarrow> bool" where
  "price_char c = (is_digit c \<or> c = CHR '','' \<or> c = CHR ''.'')"

fun search_price :: "string \<Rightarrow> string \<Rightarrow> string option" where
  "search_price lit [] = None"
| "search_price lit (c # cs) =
     (let run = takeWhile price_char (drop (length lit) (c # cs)) in
      if take (length lit) (c # cs) = lit \<and> run \<noteq> [] then Some run
      else search_price lit cs)"

definition btc_match :: "string \<Rightarrow> string option" where
  "btc_match tweet = search_price ''BTC: $'' tweet"

definition eth_match :: "string \<Rightarrow> string option" where
  "eth_match tweet = search_price ''ETH: $'' tweet"

text \<open>
  \<^verbatim>\<open>re.search(r'Analysis - ([\d-]+ [\d:]+)', text)\<close>: after the literal, the whole run of
  digits and hyphens, one blank, and the whole run of digits and colons, both runs non-empty.
  A shorter first run is never followed by a blank, so the greedy choice is the only one.
\<close>

definition date_char :: "char \<Rightarrow> bool" where
  "date_char c = (is_digit c \<or> c = CHR ''-'')"

definition time_char :: "char \<Rightarrow> bool" where
  "time_char c = (is_digit c \<or> c = CHR '':'')"

definition timestamp_at :: "string \<Rightarrow> string option" where
  "timestamp_at s =
     (if take 11 s = ''Analysis - '' then
        (let r1 = takeWhile date_char (drop 11 s); after = dropWhile date_char (drop 11 s) in
         case after of
           [] \<Rightarrow> None
         | b # trail \<Rightarrow>
             (let r2 = takeWhile time_char trail in
              if r1 \<noteq> [] \<and> b = CHR '' '' \<and> r2 \<noteq> [] then Some (r1 @ '' '' @ r2) else None))
      else None)"

fun timestamp_match :: "string \<Rightarrow> string option" where
  "timestamp_match [] = None"
| "timestamp_match (c # cs) =
     (case timestamp_at (c # cs) of
        Some g \<Rightarrow> Some g
      | None \<Rightarrow> timestamp_match cs)"

text \<open>
  The dictionary \<^verbatim>\<open>_extract_price_data\<close> returns: empty (\<open>None\<close>) or holding both prices and
  perhaps a timestamp.
\<close>

record price_data =
  btc :: rat
  eth :: rat
  timestamp :: "datetime option"

definition remove_commas :: "string \<Rightarrow> string" where
  "remove_commas s = filter (\<lambda>c. c \<noteq> CHR '','') s"

text \<open>
  The body of the \<^verbatim>\<open>try\<close> block of \<^verbatim>\<open>_extract_price_data\<close>: \<open>Inl\<close> is an exception raised
  by \<^verbatim>\<open>float\<close> or \<^verbatim>\<open>strptime\<close>, \<open>Inr None\<close> is falling through the \<^verbatim>\<open>if\<close>.
\<close>

definition extract_price_data_try :: "string \<Rightarrow> py_error + price_data option" where
  "extract_price_data_try tweet =
     (case (btc_match tweet, eth_match tweet) of
        (Some b, Some e) \<Rightarrow>
          (case py_float (remove_commas b) of
             Inl err \<Rightarrow> Inl err
           | Inr bv \<Rightarrow>
               (case py_float (remove_commas e) of
                  Inl err \<Rightarrow> Inl err
                | Inr ev \<Rightarrow>
                    (case timestamp_match tweet of
                       None \<Rightarrow> Inr (Some \<lparr>btc = bv, eth = ev, timestamp = None\<rparr>)
                     | Some g \<Rightarrow>
                         (case strptime g of
                            Inl err \<Rightarrow> Inl err
                          | Inr ts \<Rightarrow> Inr (Some \<lparr>btc = bv, eth = ev, timestamp = Some ts\<rparr>)))))
      | _ \<Rightarrow> Inr None)"

text \<open>
  \<^verbatim>\<open>_extract_price_data\<close>: the \<^verbatim>\<open>except Exception\<close> clause turns every exception of the body
  into the empty dictionary.  (The error log entry it writes there is not modelled.)
\<close>

definition extract_price_data :: "string \<Rightarrow> price_data option" where
  "extract_price_data tweet =
     (case extract_price_data_try tweet of
        Inl err \<Rightarrow> None
      | Inr data \<Rightarrow> data)"

section \<open>The duplicate check\<close>

definition MIN_CHANGE_THRESHOLD :: rat where
  "MIN_CHANGE_THRESHOLD = 1 / 100"

text \<open>
  The loop of \<^verbatim>\<open>_is_duplicate_analysis\<close> over the history.  Both percentage changes are
  computed before anything is tested, so a zero old price raises \<^verbatim>\<open>ZeroDivisionError\<close>
  whatever the other fields are; nothing in the function catches it.
\<close>

fun duplicate_loop :: "price_data \<Rightarrow> string list \<Rightarrow> py_error + bool" where
  "duplicate_loop new_data [] = Inr False"
| "duplicate_loop new_data (post # rest) =
     (case extract_price_data post of
        None \<Rightarrow> duplicate_loop new_data rest
      | Some old_data \<Rightarrow>
          if btc old_data = 0 then Inl ZeroDivisionError
          else if eth old_data = 0 then Inl ZeroDivisionError
          else
            (let btc_change = \<bar>(btc new_data - btc old_data) / btc old_data * 100\<bar>;
                 eth_change = \<bar>(eth new_data - eth old_data) / eth old_data * 100\<bar>
             in
               if btc_change < MIN_CHANGE_THRESHOLD \<and> eth_change < MIN_CHANGE_THRESHOLD
               then
                 (case (timestamp new_data, timestamp old_data) of
                    (Some tn, Some t_old) \<Rightarrow>
                      if total_seconds tn t_old < 30 then Inr True
                      else duplicate_loop new_data rest
                  | _ \<Rightarrow> duplicate_loop new_data rest)
               else duplicate_loop new_data rest))"

definition is_duplicate_analysis :: "string \<Rightarrow> string list \<Rightarrow> py_error + bool" where
  "is_duplicate_analysis new_tweet last_posts =
     (case extract_price_data new_tweet of
        None \<Rightarrow> Inr False
      | Some new_data \<Rightarrow> duplicate_loop new_data last_posts)"

section \<open>The post formatter\<close>

text \<open>
  A record of the market-data payload, with the three numeric fields the agent reads.  The
  fields are taken to be present and numeric; a payload where they are not makes the
  formatting raise, which the model counts among the exceptions of a generation attempt.
\<close>

record coin =
  symbol :: string
  current_price :: rat
  price_change_percentage_24h :: rat
  total_volume :: rat

definition digit_char :: "nat \<Rightarrow> char" where
  "digit_char d = char_of (48 + d)"

function show_nat :: "nat \<Rightarrow> string" where
  "show_nat n = (if n < 10 then [digit_char n] else show_nat (n div 10) @ [digit_char (n mod 10)])"
  by pat_completeness auto
termination
  by (relation "measure id") auto

text \<open>The thousands separator of the format specification \<^verbatim>\<open>,\<close>, on the reversed digits.\<close>

fun group3_rev :: "string \<Rightarrow> string" where
  "group3_rev (a # b # c # d # ds) = a # b # c # CHR '','' # group3_rev (d # ds)"
| "group3_rev ds = ds"

definition with_commas :: "string \<Rightarrow> string" where
  "with_commas ds = rev (group3_rev (rev ds))"

definition round_half_even :: "rat \<Rightarrow> int" where
  "round_half_even x =
     (let n = \<lfloor>x\<rfloor>; r = x - of_int n in
      if 1 / 2 < r \<or> (r = 1 / 2 \<and> odd n) then n + 1 else n)"

text \<open>
  \<^verbatim>\<open>f"{x:,.2f}"\<close> (with \<open>commas\<close>) and \<^verbatim>\<open>f"{x:.2f}"\<close> (without): the value rounded to
  hundredths, ties to even, with the sign of \<open>x\<close>.
\<close>

definition fmt_2f :: "bool \<Rightarrow> rat \<Rightarrow> string" where
  "fmt_2f commas x =
     (let cents = nat (round_half_even (\<bar>x\<bar> * 100));
          ip = show_nat (cents div 100);
          fp = cents mod 100
      in (if x < 0 then ''-'' else [])
         @ (if commas then with_commas ip else ip)
         @ ''.'' @ [digit_char (fp div 10), digit_char (fp mod 10)])"

definition pad2 :: "nat \<Rightarrow> string" where
  "pad2 n = [digit_char (n div 10 mod 10), digit_char (n mod 10)]"

definition pad4 :: "nat \<Rightarrow> string" where
  "pad4 n = pad2 (n div 100) @ pad2 (n mod 100)"

text \<open>\<^verbatim>\<open>t.strftime('%Y-%m-%d %H:%M:%S')\<close> for a year of four digits.\<close>

definition strftime :: "datetime \<Rightarrow> string" where
  "strftime t =
     pad4 (year t) @ ''-'' @ pad2 (month t) @ ''-'' @ pad2 (day t) @ '' ''
     @ pad2 (hour t) @ '':'' @ pad2 (minute t) @ '':'' @ pad2 (second t)"

definition newline :: char where
  "newline = CHR 0x0A"

definition MIN_LENGTH :: nat where
  "MIN_LENGTH = 220"

definition MAX_LENGTH :: nat where
  "MAX_LENGTH = 270"

definition HARD_STOP_LENGTH :: nat where
  "HARD_STOP_LENGTH = 280"

definition hashtags :: string where
  "hashtags = ''#Crypto #ETH #BTC''"

text \<open>The header \<^verbatim>\<open>base_tweet\<close> of \<^verbatim>\<open>_format_tweet_analysis\<close>; \<open>now\<close> is the clock reading.\<close>

definition base_tweet :: "datetime \<Rightarrow> coin \<Rightarrow> coin \<Rightarrow> string" where
  "base_tweet now btc_coin eth_coin =
     ''ETH/BTC Market Analysis - '' @ strftime now @ [newline, newline]
     @ ''BTC: $'' @ fmt_2f True (current_price btc_coin)
     @ '' ('' @ fmt_2f False (price_change_percentage_24h btc_coin) @ ''%)'' @ [newline]
     @ ''ETH: $'' @ fmt_2f True (current_price eth_coin)
     @ '' ('' @ fmt_2f False (price_change_percentage_24h eth_coin) @ ''%)'' @ [newline, newline]"

text \<open>
  The loop over the lines of the analysis: a line is taken while header, lines so far, the
  line and the closing block fit the hard stop; the first line that does not fit ends the
  loop (\<^verbatim>\<open>break\<close>).
\<close>

fun fit_lines :: "string \<Rightarrow> string \<Rightarrow> string list \<Rightarrow> string" where
  "fit_lines base formatted [] = formatted"
| "fit_lines base formatted (line # rest) =
     (if length (base @ formatted @ line @ [newline, newline] @ hashtags) \<le> HARD_STOP_LENGTH
      then fit_lines base (formatted @ line @ [newline]) rest
      else formatted)"

definition format_tweet_analysis :: "datetime \<Rightarrow> string \<Rightarrow> coin \<Rightarrow> coin \<Rightarrow> string" where
  "format_tweet_analysis now analysis btc_coin eth_coin =
     (let base = base_tweet now btc_coin eth_coin;
          formatted_analysis = fit_lines base [] (split_on newline analysis);
          final_tweet = base @ formatted_analysis @ [newline] @ hashtags
      in if length final_tweet < MIN_LENGTH
         then final_tweet @ [newline] @ ''Detailed analysis available.''
         else final_tweet)"

section \<open>The retrying components\<close>

text \<open>
  What a component does to the outside is recorded as a list of events, in order: the
  remote calls, the back-off pauses in seconds and the error lines of the log.  Pacing
  pauses inside one attempt, and log lines below the error level, are not recorded.  The
  text of an error line is a literal of the source or is built from an exception; the label
  is empty when the line is written without one.
\<close>

datatype log_text = Lit string | Exc py_error

datatype event =
    CoinGeckoGet
  | ClaudeCreate
  | ProfileRead
  | ComposePost string
  | Sleep nat
  | ErrorLog string log_text

definition max_retries :: nat where
  "max_retries = 3"

definition prepend :: "event list \<Rightarrow> 'a \<times> event list \<Rightarrow> 'a \<times> event list" where
  "prepend evs r = (fst r, evs @ snd r)"

definition upper_char :: "char \<Rightarrow> char" where
  "upper_char c =
     (if c \<in> set ''abcdefghijklmnopqrstuvwxyz'' then char_of (of_char c - (32::nat)) else c)"

definition upper :: "string \<Rightarrow> string" where
  "upper s = map upper_char s"

type_synonym crypto_data = "string \<rightharpoonup> coin"

text \<open>\<^verbatim>\<open>{coin['symbol'].upper(): coin for coin in response.json()}\<close>: a later record wins.\<close>

definition index_by_symbol :: "coin list \<Rightarrow> crypto_data" where
  "index_by_symbol coins = fold (\<lambda>c m. m(upper (symbol c) \<mapsto> c)) coins Map.empty"

text \<open>
  \<^verbatim>\<open>_get_crypto_data\<close>.  \<open>api i\<close> is what the request made after \<open>i\<close> earlier requests does:
  it delivers the decoded payload or raises.  Only \<^verbatim>\<open>requests.exceptions.Timeout\<close> reaches
  the first \<^verbatim>\<open>except\<close> clause, which counts, waits and loops; every other exception reaches
  the second clause, which returns \<^verbatim>\<open>None\<close> at once.  The request statistics written by
  \<^verbatim>\<open>log_coingecko_request\<close> are not recorded.
\<close>

function get_crypto_data_loop ::
  "(nat \<Rightarrow> py_error + coin list) \<Rightarrow> nat \<Rightarrow> crypto_data option \<times> event list" where
  "get_crypto_data_loop api retry_count =
     (if retry_count < max_retries then
        (case api retry_count of
           Inr coins \<Rightarrow>
             (let data = index_by_symbol coins in
              if data ''BTC'' = None \<or> data ''ETH'' = None
              then (None, [CoinGeckoGet, ErrorLog ''Crypto Data'' (Lit ''Missing BTC or ETH data'')])
              else (Some data, [CoinGeckoGet]))
         | Inl e \<Rightarrow>
             if e = Timeout
             then prepend [CoinGeckoGet, Sleep ((retry_count + 1) * 10)]
                    (get_crypto_data_loop api (retry_count + 1))
             else (None, [CoinGeckoGet, ErrorLog ''CoinGecko API'' (Exc e)]))
      else (None, [ErrorLog ''CoinGecko API'' (Lit ''Maximum retries reached'')]))"
  by pat_completeness auto
termination
  by (relation "measure (\<lambda>(api, retry_count). max_retries - retry_count)") auto

definition get_crypto_data ::
  "(nat \<Rightarrow> py_error + coin list) \<Rightarrow> crypto_data option \<times> event list" where
  "get_crypto_data api = get_crypto_data_loop api 0"

text \<open>
  \<^verbatim>\<open>_analyze_market_sentiment\<close>.  \<open>api i\<close> is what the generation call made after \<open>i\<close>
  earlier calls does: it delivers the analysis text or raises.  Everything of an attempt is
  inside the \<^verbatim>\<open>try\<close>, the two dictionary look-ups included, and every exception counts,
  waits and loops.  \<open>now\<close> is the clock reading taken when the post is formatted.
\<close>

function analyze_market_sentiment_loop ::
  "(nat \<Rightarrow> py_error + string) \<Rightarrow> datetime \<Rightarrow> crypto_data \<Rightarrow> nat \<Rightarrow> string option \<times> event list" where
  "analyze_market_sentiment_loop api now data retry_count =
     (if retry_count < max_retries then
        (case (data ''BTC'', data ''ETH'') of
           (Some btc_coin, Some eth_coin) \<Rightarrow>
             (case api retry_count of
                Inr analysis \<Rightarrow>
                  (Some (format_tweet_analysis now analysis btc_coin eth_coin), [ClaudeCreate])
              | Inl e \<Rightarrow>
                  prepend [ClaudeCreate, Sleep ((retry_count + 1) * 10)]
                    (analyze_market_sentiment_loop api now data (retry_count + 1)))
         | _ \<Rightarrow>
             prepend [Sleep ((retry_count + 1) * 10)]
               (analyze_market_sentiment_loop api now data (retry_count + 1)))
      else (None, [ErrorLog ''Market Sentiment Analysis'' (Lit ''Maximum retries reached'')]))"
  by pat_completeness auto
termination
  by (relation "measure (\<lambda>(api, now, data, retry_count). max_retries - retry_count)") auto

definition analyze_market_sentiment ::
  "(nat \<Rightarrow> py_error + string) \<Rightarrow> datetime \<Rightarrow> crypto_data \<Rightarrow> string option \<times> event list" where
  "analyze_market_sentiment api now data = analyze_market_sentiment_loop api now data 0"

text \<open>
  \<^verbatim>\<open>_get_last_posts\<close>: the texts found on the profile page, at most ten, or the empty list
  when reading the page raises.
\<close>

definition get_last_posts :: "py_error + string list \<Rightarrow> string list \<times> event list" where
  "get_last_posts page =
     (case page of
        Inr posts \<Rightarrow> (take 10 posts, [ProfileRead])
      | Inl e \<Rightarrow> ([], [ProfileRead, ErrorLog ''Get Last Posts'' (Exc e)]))"

text \<open>
  \<^verbatim>\<open>_post_analysis\<close>.  \<open>ui i\<close> is what the compose page does on the attempt made after \<open>i\<close>
  earlier ones: the post button is found and clicked, no button is found, or a step raises.
\<close>

datatype compose_outcome = Clicked | NoButton | ComposeRaised py_error

function post_analysis_loop ::
  "(nat \<Rightarrow> compose_outcome) \<Rightarrow> string \<Rightarrow> nat \<Rightarrow> bool \<times> event list" where
  "post_analysis_loop ui tweet_text retry_count =
     (if retry_count < max_retries then
        (case ui retry_count of
           Clicked \<Rightarrow> (True, [ComposePost tweet_text])
         | NoButton \<Rightarrow>
             prepend [ComposePost tweet_text, ErrorLog [] (Lit ''Could not find post button''), Sleep 2]
               (post_analysis_loop ui tweet_text (retry_count + 1))
         | ComposeRaised e \<Rightarrow>
             prepend [ComposePost tweet_text, ErrorLog [] (Exc e), Sleep ((retry_count + 1) * 10)]
               (post_analysis_loop ui tweet_text (retry_count + 1)))
      else (False, [ErrorLog ''Tweet Creation'' (Lit ''Maximum retries reached'')]))"
  by pat_completeness auto
termination
  by (relation "measure (\<lambda>(ui, tweet_text, retry_count). max_retries - retry_count)") auto

definition post_analysis :: "(nat \<Rightarrow> compose_outcome) \<Rightarrow> string \<Rightarrow> bool \<times> event list" where
  "post_analysis ui tweet_text = post_analysis_loop ui tweet_text 0"

section \<open>One cycle\<close>

text \<open>Everything outside the agent that one cycle meets.\<close>

record world =
  coingecko :: "nat \<Rightarrow> py_error + coin list"
  claude :: "nat \<Rightarrow> py_error + string"
  clock :: datetime
  profile :: "py_error + string list"
  compose :: "nat \<Rightarrow> compose_outcome"

text \<open>
  The ways \<^verbatim>\<open>_run_correlation_cycle\<close> ends: its two early returns, the three ends of the
  duplicate-and-publish branch, and the \<^verbatim>\<open>except Exception\<close> clause.
\<close>

datatype cycle_exit =
    NoCryptoData
  | NoAnalysis
  | SkippedDuplicate
  | Posted
  | PostFailed
  | Caught py_error

text \<open>
  The body of the \<^verbatim>\<open>try\<close> block.  A dictionary returned by \<^verbatim>\<open>_get_crypto_data\<close> holds BTC
  and ETH, so it is never empty and the test \<^verbatim>\<open>not crypto_data\<close> fails only for \<^verbatim>\<open>None\<close>;
  \<^verbatim>\<open>not tweet_text\<close> holds for \<^verbatim>\<open>None\<close> and for the empty text.
\<close>

definition run_correlation_cycle_try :: "world \<Rightarrow> (py_error + cycle_exit) \<times> event list" where
  "run_correlation_cycle_try w =
     (case get_crypto_data (coingecko w) of
        (None, tr1) \<Rightarrow>
          (Inr NoCryptoData, tr1 @ [ErrorLog [] (Lit ''Failed to get crypto data'')])
      | (Some data, tr1) \<Rightarrow>
          (case analyze_market_sentiment (claude w) (clock w) data of
             (None, tr2) \<Rightarrow>
               (Inr NoAnalysis,
                tr1 @ tr2 @ [ErrorLog [] (Lit ''Failed to generate market analysis'')])
           | (Some tweet_text, tr2) \<Rightarrow>
               if tweet_text = []
               then (Inr NoAnalysis,
                     tr1 @ tr2 @ [ErrorLog [] (Lit ''Failed to generate market analysis'')])
               else
                 (case get_last_posts (profile w) of
                    (last_posts, tr3) \<Rightarrow>
                      (case is_duplicate_analysis tweet_text last_posts of
                         Inl e \<Rightarrow> (Inl e, tr1 @ tr2 @ tr3)
                       | Inr dup \<Rightarrow>
                           if \<not> dup then
                             (case post_analysis (compose w) tweet_text of
                                (ok, tr4) \<Rightarrow>
                                  if ok then (Inr Posted, tr1 @ tr2 @ tr3 @ tr4)
                                  else (Inr PostFailed,
                                        tr1 @ tr2 @ tr3 @ tr4
                                        @ [ErrorLog [] (Lit ''Failed to post analysis to Twitter'')]))
                           else (Inr SkippedDuplicate, tr1 @ tr2 @ tr3)))))"

text \<open>
  \<^verbatim>\<open>_run_correlation_cycle\<close>: an exception of the body is logged and the cycle returns.
  \<open>Inl\<close> would be an exception leaving the cycle.
\<close>

definition run_correlation_cycle :: "world \<Rightarrow> (py_error + cycle_exit) \<times> event list" where
  "run_correlation_cycle w =
     (case run_correlation_cycle_try w of
        (Inl e, tr) \<Rightarrow> (Inr (Caught e), tr @ [ErrorLog ''Correlation Cycle'' (Exc e)])
      | (Inr x, tr) \<Rightarrow> (Inr x, tr))"

section \<open>The duplicate rule in the words of the specification\<close>

text \<open>
  The specification's test on a candidate and one parsed history record: both relative
  changes, as \<open>|new - old| / old * 100\<close>, below 0.01, both timestamps present, and the signed
  difference \<open>new - old\<close> below 30 seconds.
\<close>

definition spec_near_duplicate :: "price_data \<Rightarrow> price_data \<Rightarrow> bool" where
  "spec_near_duplicate new_data old_data =
     (\<bar>btc new_data - btc old_data\<bar> / btc old_data * 100 < 1 / 100
      \<and> \<bar>eth new_data - eth old_data\<bar> / eth old_data * 100 < 1 / 100
      \<and> (case (timestamp new_data, timestamp old_data) of
            (Some tn, Some t_old) \<Rightarrow> total_seconds tn t_old < 30
          | _ \<Rightarrow> False))"

text \<open>A history text that parses to two non-zero prices and passes the test.\<close>

definition spec_entry_matches :: "price_data \<Rightarrow> string \<Rightarrow> bool" where
  "spec_entry_matches new_data post =
     (case extract_price_data post of
        None \<Rightarrow> False
      | Some old_data \<Rightarrow>
          btc old_data \<noteq> 0 \<and> eth old_data \<noteq> 0 \<and> spec_near_duplicate new_data old_data)"

text \<open>A history text that parses to a price pair with a zero in it.\<close>

definition zero_old_price :: "string \<Rightarrow> bool" where
  "zero_old_price post =
     (case extract_price_data post of
        None \<Rightarrow> False
      | Some old_data \<Rightarrow> btc old_data = 0 \<or> eth old_data = 0)"

section \<open>Sample inputs\<close>

definition candidate_post :: string where
  "candidate_post = ''BTC: $50000.00 ETH: $3000.00 Analysis - 2024-01-01 00:00:00''"

definition candidate_data :: price_data where
  "candidate_data =
     \<lparr>btc = 50000, eth = 3000,
      timestamp = Some \<lparr>year = 2024, month = 1, day = 1, hour = 0, minute = 0, second = 0\<rparr>\<rparr>"

definition post_10s_earlier :: string where
  "post_10s_earlier = ''BTC: $50000.01 ETH: $3000.00 Analysis - 2023-12-31 23:59:50''"

definition post_40s_earlier :: string where
  "post_40s_earlier = ''BTC: $50000.01 ETH: $3000.00 Analysis - 2023-12-31 23:59:20''"

definition post_one_hour_later :: string where
  "post_one_hour_later = ''BTC: $50000.01 ETH: $3000.00 Analysis - 2024-01-01 01:00:00''"

definition post_zero_btc :: string where
  "post_zero_btc = ''BTC: $0.00 ETH: $3000.00 Analysis - 2023-12-31 23:59:55''"

definition post_without_prices :: string where
  "post_without_prices = ''gm, nothing to see here''"

definition post_bad_timestamp :: string where
  "post_bad_timestamp = ''BTC: $50000.00 ETH: $3000.00 Analysis - 2024-13-01 00:00:00''"

definition post_no_timestamp :: string where
  "post_no_timestamp = ''BTC: $50000.00 ETH: $3000.00''"

definition sample_now :: datetime where
  "sample_now = \<lparr>year = 2024, month = 1, day = 1, hour = 0, minute = 0, second = 0\<rparr>"

definition btc_coin_50000 :: coin where
  "btc_coin_50000 =
     \<lparr>symbol = ''btc'', current_price = 50000, price_change_percentage_24h = 5 / 4,
      total_volume = 30000000000\<rparr>"

definition eth_coin_3000 :: coin where
  "eth_coin_3000 =
     \<lparr>symbol = ''eth'', current_price = 3000, price_change_percentage_24h = - 1 / 2,
      total_volume = 15000000000\<rparr>"

text \<open>A price of \<open>2 ^ 1000\<close>, which a binary float holds exactly.\<close>

definition btc_coin_huge :: coin where
  "btc_coin_huge =
     \<lparr>symbol = ''btc'', current_price = 2 ^ 1000, price_change_percentage_24h = 5 / 4,
      total_volume = 30000000000\<rparr>"

definition sample_analysis :: string where
  "sample_analysis = ''Momentum is flat.''"

text \<open>
  The events of \<open>k\<close> failed attempts under linear back-off: attempt \<open>i\<close> (counted from 1) is
  followed by a pause of \<open>i * 10\<close> seconds.
\<close>

definition backoff_trace :: "event \<Rightarrow> nat \<Rightarrow> event list" where
  "backoff_trace call k = concat (map (\<lambda>i. [call, Sleep ((i + 1) * 10)]) [0..<k])"

definition good_payload :: "coin list" where
  "good_payload = [btc_coin_50000, eth_coin_3000]"

text \<open>A market-data service that times out \<open>k\<close> times and then answers.\<close>

definition coingecko_timeouts :: "nat \<Rightarrow> nat \<Rightarrow> py_error + coin list" where
  "coingecko_timeouts k i = (if i < k then Inl Timeout else Inr good_payload)"

text \<open>A market-data service that refuses the connection, every time.\<close>

definition coingecko_refused :: "nat \<Rightarrow> py_error + coin list" where
  "coingecko_refused i = Inl ConnectionError"

text \<open>A generation service that fails \<open>k\<close> times and then answers.\<close>

definition claude_failures :: "nat \<Rightarrow> nat \<Rightarrow> py_error + string" where
  "claude_failures k i = (if i < k then Inl APIError else Inr sample_analysis)"

text \<open>A market-data service that times out once and then refuses the connection.\<close>

definition coingecko_timeouts_then_refused :: "nat \<Rightarrow> py_error + coin list" where
  "coingecko_timeouts_then_refused i = (if i < 1 then Inl Timeout else Inl ConnectionError)"

text \<open>A market-data service whose payload lacks BTC.\<close>

definition coingecko_eth_only :: "nat \<Rightarrow> py_error + coin list" where
  "coingecko_eth_only i = Inr [eth_coin_3000]"

definition compose_clicks :: "nat \<Rightarrow> compose_outcome" where
  "compose_clicks i = Clicked"

definition compose_no_button :: "nat \<Rightarrow> compose_outcome" where
  "compose_no_button i = NoButton"

text \<open>A world where everything works and the profile shows no posts.\<close>

definition calm_world :: world where
  "calm_world =
     \<lparr>coingecko = coingecko_timeouts 0, claude = claude_failures 0, clock = sample_now,
      profile = Inr [], compose = compose_clicks\<rparr>"

definition world_fetch_fails :: world where
  "world_fetch_fails = calm_world\<lparr>coingecko := coingecko_refused\<rparr>"

definition world_generation_fails :: world where
  "world_generation_fails = calm_world\<lparr>claude := claude_failures 3\<rparr>"

definition world_history_fails :: world where
  "world_history_fails = calm_world\<lparr>profile := Inl WebDriverError\<rparr>"

definition world_zero_price_history :: world where
  "world_zero_price_history = calm_world\<lparr>profile := Inr [post_zero_btc]\<rparr>"

definition world_publish_fails :: world where
  "world_publish_fails = calm_world\<lparr>compose := compose_no_button\<rparr>"

definition world_recent_duplicate :: world where
  "world_recent_duplicate = calm_world\<lparr>profile := Inr [post_10s_earlier]\<rparr>"

text \<open>The post the agent formats in these worlds.\<close>

definition sample_tweet :: string where
  "sample_tweet = format_tweet_analysis sample_now sample_analysis btc_coin_50000 eth_coin_3000"

section \<open>Evaluation and auxiliary facts\<close>


lemmas dt_defs = toordinal_def days_before_year_def days_before_month_def days_in_month_def
  is_leap_def total_seconds_def
lemmas parse_defs = strptime_def field_ok_def digits_val_def digit_val_def is_digit_def py_float_def
  price_char_def date_char_def time_char_def timestamp_at_def btc_match_def eth_match_def
  remove_commas_def extract_price_data_try_def extract_price_data_def
lemmas sample_defs = candidate_post_def candidate_data_def post_10s_earlier_def post_40s_earlier_def
  post_one_hour_later_def post_zero_btc_def post_without_prices_def post_bad_timestamp_def
  post_no_timestamp_def

text \<open>
  The text the timestamp pattern captures is a run of digits and hyphens, one blank and a
  run of digits and colons: the texts on which \<open>strptime\<close> is defined above.
\<close>

lemma timestamp_at_shape:
  "timestamp_at s = Some g \<Longrightarrow>
   \<exists>d t. g = d @ CHR '' '' # t \<and> d \<noteq> [] \<and> t \<noteq> []
         \<and> list_all date_char d \<and> list_all time_char t"
  by (auto simp: timestamp_at_def Let_def list_all_iff split: if_splits list.splits
           dest: set_takeWhileD)

lemma timestamp_match_shape:
  "timestamp_match tweet = Some g \<Longrightarrow>
   \<exists>d t. g = d @ CHR '' '' # t \<and> d \<noteq> [] \<and> t \<noteq> []
         \<and> list_all date_char d \<and> list_all time_char t"
  by (induction tweet) (auto split: option.splits dest: timestamp_at_shape)

lemma py_float_nonneg: "py_float s = Inr v \<Longrightarrow> 0 \<le> v"
  by (auto simp: py_float_def Let_def split: list.splits if_splits)

lemma extract_try_nonneg:
  "extract_price_data_try tweet = Inr (Some d) \<Longrightarrow> 0 \<le> btc d \<and> 0 \<le> eth d"
  by (auto simp: extract_price_data_try_def split: option.splits sum.splits dest: py_float_nonneg)

lemma extract_nonneg: "extract_price_data tweet = Some d \<Longrightarrow> 0 \<le> btc d \<and> 0 \<le> eth d"
  by (auto simp: extract_price_data_def split: sum.splits dest: extract_try_nonneg)

lemma duplicate_loop_skip:
  "extract_price_data post = None \<Longrightarrow>
   duplicate_loop n (before @ post # after) = duplicate_loop n (before @ after)"
  by (induction before) (auto simp: Let_def split: option.splits)

lemma duplicate_loop_all_unparsed:
  "\<forall>p \<in> set posts. extract_price_data p = None \<Longrightarrow> duplicate_loop n posts = Inr False"
  by (induction posts) auto

lemma abs_change_eq:
  fixes a b :: rat
  assumes "0 < b"
  shows "\<bar>(a - b) / b * 100\<bar> = \<bar>a - b\<bar> / b * 100"
proof -
  have "\<bar>(a - b) / b * 100\<bar> = \<bar>a - b\<bar> / \<bar>b\<bar> * \<bar>100\<bar>"
    by (simp only: abs_mult abs_divide)
  also have "\<dots> = \<bar>a - b\<bar> / b * 100"
    using assms by simp
  finally show ?thesis .
qed

lemma duplicate_loop_zero:
  "zero_old_price post \<Longrightarrow> duplicate_loop n (post # rest) = Inl ZeroDivisionError"
  by (auto simp: zero_old_price_def split: option.splits)

lemma loop_test_eq_spec:
  assumes "0 < btc old" and "0 < eth old"
  shows "(\<bar>(btc n - btc old) / btc old * 100\<bar> < MIN_CHANGE_THRESHOLD
          \<and> \<bar>(eth n - eth old) / eth old * 100\<bar> < MIN_CHANGE_THRESHOLD
          \<and> (case (timestamp n, timestamp old) of
                (Some tn, Some t_old) \<Rightarrow> total_seconds tn t_old < 30
              | _ \<Rightarrow> False))
         = spec_near_duplicate n old"
  unfolding spec_near_duplicate_def MIN_CHANGE_THRESHOLD_def
  by (simp only: abs_change_eq [OF assms(1)] abs_change_eq [OF assms(2)])

lemma duplicate_loop_step:
  assumes "\<not> zero_old_price post"
  shows "duplicate_loop n (post # rest) =
         (if spec_entry_matches n post then Inr True else duplicate_loop n rest)"
proof (cases "extract_price_data post")
  case None
  then show ?thesis by (simp add: spec_entry_matches_def)
next
  case (Some old)
  with assms have nz: "btc old \<noteq> 0" "eth old \<noteq> 0"
    by (simp_all add: zero_old_price_def)
  from extract_nonneg [OF Some] nz have pos: "0 < btc old" "0 < eth old"
    by simp_all
  have m: "spec_entry_matches n post = spec_near_duplicate n old"
    using Some nz by (simp add: spec_entry_matches_def)
  show ?thesis
    unfolding m loop_test_eq_spec [OF pos, symmetric]
    using Some nz by (auto simp: Let_def split: option.splits)
qed

lemma matches_not_zero: "spec_entry_matches n post \<Longrightarrow> \<not> zero_old_price post"
  by (auto simp: spec_entry_matches_def zero_old_price_def split: option.splits)


lemma duplicate_loop_first_match:
  "\<forall>q \<in> set before. \<not> zero_old_price q \<Longrightarrow> spec_entry_matches n p \<Longrightarrow>
   duplicate_loop n (before @ p # after) = Inr True"
proof (induction before)
  case Nil
  then show ?case by (simp add: duplicate_loop_step matches_not_zero del: duplicate_loop.simps(2))
next
  case (Cons q before)
  then show ?case by (simp add: duplicate_loop_step del: duplicate_loop.simps(2))
qed

lemma duplicate_loop_True_iff:
  "duplicate_loop n posts = Inr True \<longleftrightarrow>
   (\<exists>before p after. posts = before @ p # after
      \<and> (\<forall>q \<in> set before. \<not> zero_old_price q) \<and> spec_entry_matches n p)"
  (is "?L posts \<longleftrightarrow> ?R posts")
proof
  show "?R posts \<Longrightarrow> ?L posts"
    using duplicate_loop_first_match by blast
  show "?L posts \<Longrightarrow> ?R posts"
  proof (induction posts)
    case Nil
    then show ?case by simp
  next
    case (Cons x xs)
    show ?case
    proof (cases "zero_old_price x")
      case True
      with Cons.prems show ?thesis by (simp add: duplicate_loop_zero del: duplicate_loop.simps(2))
    next
      case nz: False
      show ?thesis
      proof (cases "spec_entry_matches n x")
        case True
        then have "x # xs = [] @ x # xs \<and> (\<forall>q \<in> set []. \<not> zero_old_price q) \<and> spec_entry_matches n x"
          by simp
        then show ?thesis by blast
      next
        case False
        with Cons.prems nz have "duplicate_loop n xs = Inr True"
          by (simp add: duplicate_loop_step del: duplicate_loop.simps(2))
        from Cons.IH [OF this] obtain before p after where
          h: "xs = before @ p # after" "\<forall>q \<in> set before. \<not> zero_old_price q" "spec_entry_matches n p"
          by blast
        then have "x # xs = (x # before) @ p # after
                   \<and> (\<forall>q \<in> set (x # before). \<not> zero_old_price q) \<and> spec_entry_matches n p"
          using nz by simp
        then show ?thesis by blast
      qed
    qed
  qed
qed

lemma ex_candidate: "extract_price_data candidate_post = Some candidate_data"
  by (simp add: sample_defs parse_defs dt_defs)

lemma ex_10: "spec_entry_matches candidate_data post_10s_earlier"
  by (simp add: spec_entry_matches_def spec_near_duplicate_def sample_defs parse_defs dt_defs upt_rec)


lemma ex_zero: "zero_old_price post_zero_btc"
  by (simp add: zero_old_price_def sample_defs parse_defs dt_defs upt_rec)



lemma ex_later: "extract_price_data post_one_hour_later =
  Some \<lparr>btc = 5000001 / 100, eth = 3000,
        timestamp = Some \<lparr>year = 2024, month = 1, day = 1, hour = 1, minute = 0, second = 0\<rparr>\<rparr>"
  by (simp add: sample_defs parse_defs dt_defs)

lemma ex_zero_parse: "extract_price_data post_zero_btc =
  Some \<lparr>btc = 0, eth = 3000,
        timestamp = Some \<lparr>year = 2023, month = 12, day = 31, hour = 23, minute = 59, second = 55\<rparr>\<rparr>"
  by (simp add: sample_defs parse_defs dt_defs)

lemma ex_without: "extract_price_data post_without_prices = None"
  by (simp add: sample_defs parse_defs)

section \<open>Claims about the duplicate check\<close>




text \<open>
  C7.  The check is fail-open on text without a usable price pair: such a candidate gives
  false; such a history entry is passed over, wherever it stands, and the rest of the
  history decides; a history of such entries only gives false.  Extraction itself turns
  every exception of its body into the empty record.
\<close>

theorem duplicate_check_fail_open:
  "(extract_price_data new_tweet = None \<longrightarrow> is_duplicate_analysis new_tweet last_posts = Inr False)
   \<and> (extract_price_data post = None \<longrightarrow>
        is_duplicate_analysis new_tweet (before @ post # after)
        = is_duplicate_analysis new_tweet (before @ after))
   \<and> ((\<forall>p \<in> set last_posts. extract_price_data p = None) \<longrightarrow>
        is_duplicate_analysis new_tweet last_posts = Inr False)
   \<and> (extract_price_data_try tweet = Inl err \<longrightarrow> extract_price_data tweet = None)"
  by (auto simp: is_duplicate_analysis_def duplicate_loop_skip duplicate_loop_all_unparsed
        extract_price_data_def split: option.splits)

theorem duplicate_check_fail_open_witness:
  "extract_price_data post_without_prices = None
   \<and> is_duplicate_analysis post_without_prices [post_10s_earlier] = Inr False
   \<and> is_duplicate_analysis candidate_post [post_without_prices, post_10s_earlier]
       = is_duplicate_analysis candidate_post [post_10s_earlier]
   \<and> is_duplicate_analysis candidate_post [post_without_prices, post_without_prices] = Inr False
   \<and> extract_price_data_try post_bad_timestamp = Inl ValueError
   \<and> extract_price_data post_bad_timestamp = None"
proof -
  have bad: "extract_price_data_try post_bad_timestamp = Inl ValueError"
    by (simp add: sample_defs parse_defs dt_defs)
  show ?thesis
    using duplicate_check_fail_open [where new_tweet = post_without_prices
            and last_posts = "[post_10s_earlier]" and post = post_without_prices
            and before = "[]" and after = "[]" and tweet = post_bad_timestamp and err = ValueError]
          duplicate_check_fail_open [where new_tweet = candidate_post
            and last_posts = "[post_without_prices, post_without_prices]"
            and post = post_without_prices and before = "[]" and after = "[post_10s_earlier]"
            and tweet = post_bad_timestamp and err = ValueError]
          ex_without bad
    by simp
qed

text \<open>
  C8.  The percentage change divides by the old prices without a zero guard: when the
  candidate parses and a history entry parses to a BTC or ETH price of zero, the check on a
  history that starts with this entry ends in \<^verbatim>\<open>ZeroDivisionError\<close>; it does not answer
  "not a duplicate".
\<close>

theorem zero_old_price_raises:
  assumes "extract_price_data new_tweet = Some new_data"
    and "extract_price_data post = Some old_data"
    and "btc old_data = 0 \<or> eth old_data = 0"
  shows "is_duplicate_analysis new_tweet (post # rest) = Inl ZeroDivisionError"
  using assms by (auto simp: is_duplicate_analysis_def)

theorem zero_old_price_raises_witness:
  "extract_price_data candidate_post = Some candidate_data
   \<and> extract_price_data post_zero_btc =
       Some \<lparr>btc = 0, eth = 3000,
             timestamp = Some \<lparr>year = 2023, month = 12, day = 31, hour = 23, minute = 59, second = 55\<rparr>\<rparr>
   \<and> is_duplicate_analysis candidate_post [post_zero_btc] = Inl ZeroDivisionError
   \<and> is_duplicate_analysis candidate_post [post_zero_btc] \<noteq> Inr False"
  using zero_old_price_raises [OF ex_candidate ex_zero_parse, of "[]"] ex_candidate ex_zero_parse
  by simp

text \<open>
  C9.  The window is a signed comparison.  When candidate and history entry both parse with
  prices and timestamps, both changes are below 0.01 percent, and the entry's timestamp is
  not earlier than the candidate's (the difference new - old is zero or negative), a
  history that starts with this entry makes the candidate a duplicate, however far in the
  future the entry lies.
\<close>

theorem later_entry_is_duplicate:
  assumes "extract_price_data new_tweet = Some new_data"
    and "extract_price_data post = Some old_data"
    and "timestamp new_data = Some tn" and "timestamp old_data = Some t_old"
    and "btc old_data \<noteq> 0" and "eth old_data \<noteq> 0"
    and "\<bar>btc new_data - btc old_data\<bar> / btc old_data * 100 < 1 / 100"
    and "\<bar>eth new_data - eth old_data\<bar> / eth old_data * 100 < 1 / 100"
    and "total_seconds tn t_old \<le> 0"
  shows "is_duplicate_analysis new_tweet (post # rest) = Inr True"
proof -
  have "spec_entry_matches new_data post"
    using assms by (simp add: spec_entry_matches_def spec_near_duplicate_def)
  from duplicate_loop_first_match [of "[]" new_data post rest, OF _ this]
  show ?thesis using assms(1) by (simp add: is_duplicate_analysis_def del: duplicate_loop.simps(2))
qed

theorem later_entry_is_duplicate_witness:
  "extract_price_data candidate_post = Some candidate_data
   \<and> extract_price_data post_one_hour_later =
       Some \<lparr>btc = 5000001 / 100, eth = 3000,
             timestamp = Some \<lparr>year = 2024, month = 1, day = 1, hour = 1, minute = 0, second = 0\<rparr>\<rparr>
   \<and> total_seconds \<lparr>year = 2024, month = 1, day = 1, hour = 0, minute = 0, second = 0\<rparr>
        \<lparr>year = 2024, month = 1, day = 1, hour = 1, minute = 0, second = 0\<rparr> = - 3600
   \<and> is_duplicate_analysis candidate_post [post_one_hour_later] = Inr True"
proof -
  have ts: "total_seconds \<lparr>year = 2024, month = 1, day = 1, hour = 0, minute = 0, second = 0\<rparr>
        \<lparr>year = 2024, month = 1, day = 1, hour = 1, minute = 0, second = 0\<rparr> = - 3600"
    by (simp add: dt_defs)
  show ?thesis
    using later_entry_is_duplicate [OF ex_candidate ex_later,
            where tn = "\<lparr>year = 2024, month = 1, day = 1, hour = 0, minute = 0, second = 0\<rparr>"
              and t_old = "\<lparr>year = 2024, month = 1, day = 1, hour = 1, minute = 0, second = 0\<rparr>"
              and rest = "[]"]
          ex_candidate ex_later ts
    by (simp add: candidate_data_def)
qed

text \<open>
  C10.  Let a text hold BTC and ETH prices that \<^verbatim>\<open>float\<close> accepts.  If the timestamp
  pattern matches and the matched text is not a datetime of the format, extraction returns
  the empty record: the prices are lost with it.  Only when the pattern matches nowhere are
  the prices returned with no timestamp.
\<close>

theorem invalid_timestamp_discards_prices:
  assumes "btc_match tweet = Some b" and "py_float (remove_commas b) = Inr bv"
    and "eth_match tweet = Some e" and "py_float (remove_commas e) = Inr ev"
  shows "(timestamp_match tweet = Some g \<and> strptime g = Inl err \<longrightarrow>
            extract_price_data tweet = None)
         \<and> (timestamp_match tweet = None \<longrightarrow>
            extract_price_data tweet = Some \<lparr>btc = bv, eth = ev, timestamp = None\<rparr>)"
  using assms by (simp add: extract_price_data_def extract_price_data_try_def)

theorem invalid_timestamp_discards_prices_witness:
  "btc_match post_bad_timestamp = Some ''50000.00''
   \<and> py_float (remove_commas ''50000.00'') = Inr 50000
   \<and> eth_match post_bad_timestamp = Some ''3000.00''
   \<and> py_float (remove_commas ''3000.00'') = Inr 3000
   \<and> timestamp_match post_bad_timestamp = Some ''2024-13-01 00:00:00''
   \<and> strptime ''2024-13-01 00:00:00'' = Inl ValueError
   \<and> extract_price_data post_bad_timestamp = None
   \<and> btc_match post_no_timestamp = Some ''50000.00''
   \<and> eth_match post_no_timestamp = Some ''3000.00''
   \<and> timestamp_match post_no_timestamp = None
   \<and> extract_price_data post_no_timestamp = Some \<lparr>btc = 50000, eth = 3000, timestamp = None\<rparr>"
proof -
  have b1: "btc_match post_bad_timestamp = Some ''50000.00''"
    and e1: "eth_match post_bad_timestamp = Some ''3000.00''"
    and t1: "timestamp_match post_bad_timestamp = Some ''2024-13-01 00:00:00''"
    and b2: "btc_match post_no_timestamp = Some ''50000.00''"
    and e2: "eth_match post_no_timestamp = Some ''3000.00''"
    and t2: "timestamp_match post_no_timestamp = None"
    by (simp_all add: sample_defs btc_match_def eth_match_def timestamp_at_def price_char_def
          date_char_def time_char_def is_digit_def)
  have fb: "py_float (remove_commas ''50000.00'') = Inr 50000"
    and fe: "py_float (remove_commas ''3000.00'') = Inr 3000"
    by (simp_all add: py_float_def remove_commas_def is_digit_def digits_val_def digit_val_def)
  have s1: "strptime ''2024-13-01 00:00:00'' = Inl ValueError"
    by (simp add: strptime_def field_ok_def is_digit_def digits_val_def digit_val_def)
  show ?thesis
    using invalid_timestamp_discards_prices [OF b1 fb e1 fe, of "''2024-13-01 00:00:00''" ValueError]
          invalid_timestamp_discards_prices [OF b2 fb e2 fe, of "''2024-13-01 00:00:00''" ValueError]
          b1 e1 t1 b2 e2 t2 fb fe s1
    by simp
qed


section \<open>Facts about the formatter\<close>

lemma digit_char_table:
  "digit_char 0 = CHR ''0''" "digit_char (Suc 0) = CHR ''1''" "digit_char 1 = CHR ''1''"
  "digit_char 2 = CHR ''2''" "digit_char 3 = CHR ''3''" "digit_char 4 = CHR ''4''"
  "digit_char 5 = CHR ''5''" "digit_char 6 = CHR ''6''" "digit_char 7 = CHR ''7''"
  "digit_char 8 = CHR ''8''" "digit_char 9 = CHR ''9''"
  by code_simp+

lemmas fmt_defs = fmt_2f_def round_half_even_def with_commas_def digit_char_table pad2_def pad4_def
  strftime_def base_tweet_def newline_def hashtags_def
lemmas coin_defs = sample_now_def btc_coin_50000_def eth_coin_3000_def btc_coin_huge_def
  sample_analysis_def

declare show_nat.simps [simp del]

lemma show_nat_nonempty: "show_nat n \<noteq> []"
  by (subst show_nat.simps) simp

lemma show_nat_long: "10 ^ k \<le> n \<Longrightarrow> k < length (show_nat n)"
proof (induction k arbitrary: n)
  case 0
  then show ?case using show_nat_nonempty [of n] by (cases "show_nat n") simp_all
next
  case (Suc k)
  then have "10 \<le> n"
    by (metis One_nat_def le_trans one_le_numeral one_le_power power_Suc mult.right_neutral mult_le_mono2)
  moreover from Suc.prems have "10 ^ k \<le> n div 10"
    by (simp add: less_eq_div_iff_mult_less_eq mult.commute)
  ultimately show ?case
    using Suc.IH [of "n div 10"] by (subst show_nat.simps) simp
qed

lemma length_group3_rev: "length ds \<le> length (group3_rev ds)"
  by (induction ds rule: group3_rev.induct) simp_all

lemma length_with_commas: "length ds \<le> length (with_commas ds)"
  using length_group3_rev [of "rev ds"] by (simp add: with_commas_def)

lemma round_half_even_ge: "\<lfloor>x\<rfloor> \<le> round_half_even x"
  by (simp add: round_half_even_def Let_def)

lemma fmt_2f_long:
  assumes "of_nat (10 ^ k) \<le> x"
  shows "k < length (fmt_2f c x)"
proof -
  define cents where "cents = nat (round_half_even (\<bar>x\<bar> * 100))"
  have "(0::rat) \<le> of_nat (10 ^ k)" by simp
  with assms have x0: "0 \<le> x" by linarith
  have "of_int (int (10 ^ k * 100)) \<le> \<bar>x\<bar> * 100"
    using assms x0 by simp
  then have "int (10 ^ k * 100) \<le> \<lfloor>\<bar>x\<bar> * 100\<rfloor>"
    by (simp only: le_floor_iff)
  also have "\<dots> \<le> round_half_even (\<bar>x\<bar> * 100)"
    by (rule round_half_even_ge)
  finally have "10 ^ k * 100 \<le> cents"
    unfolding cents_def by linarith
  then have "10 ^ k \<le> cents div 100"
    by (simp add: less_eq_div_iff_mult_less_eq)
  then have "k < length (show_nat (cents div 100))"
    by (rule show_nat_long)
  also have "\<dots> \<le> length (if c then with_commas (show_nat (cents div 100)) else show_nat (cents div 100))"
    by (simp add: length_with_commas)
  also have "\<dots> \<le> length (fmt_2f c x)"
    by (simp add: fmt_2f_def Let_def cents_def)
  finally show ?thesis .
qed

lemma length_hashtags: "length hashtags = 17"
  by (simp add: hashtags_def)

lemma fit_lines_bound:
  "formatted = [] \<or> length base + length formatted + 18 \<le> 280 \<Longrightarrow>
   fit_lines base formatted ls = [] \<or> length base + length (fit_lines base formatted ls) + 18 \<le> 280"
  by (induction ls arbitrary: formatted) (auto simp: HARD_STOP_LENGTH_def length_hashtags)

lemma fit_lines_long_base:
  "261 < length base \<Longrightarrow> fit_lines base [] ls = []"
  by (cases ls) (simp_all add: HARD_STOP_LENGTH_def length_hashtags)

lemma format_length_iff:
  "length (format_tweet_analysis now analysis b e) \<le> HARD_STOP_LENGTH
   \<longleftrightarrow> length (base_tweet now b e) \<le> 262"
proof -
  define base where "base = base_tweet now b e"
  define fa where "fa = fit_lines base [] (split_on newline analysis)"
  have out: "format_tweet_analysis now analysis b e =
      (if length base + length fa + 18 < 220
       then base @ fa @ [newline] @ hashtags @ [newline] @ ''Detailed analysis available.''
       else base @ fa @ [newline] @ hashtags)"
    by (simp add: format_tweet_analysis_def Let_def base_def fa_def MIN_LENGTH_def length_hashtags)
  have fit: "fa = [] \<or> length base + length fa + 18 \<le> 280"
    unfolding fa_def by (rule fit_lines_bound) simp
  show ?thesis
  proof (cases "length base \<le> 262")
    case True
    with fit have "length base + length fa + 18 \<le> 280" by auto
    then have "length (format_tweet_analysis now analysis b e) \<le> 280"
      by (simp add: out length_hashtags)
    with True show ?thesis by (simp add: HARD_STOP_LENGTH_def base_def)
  next
    case False
    then have "fa = []"
      unfolding fa_def by (intro fit_lines_long_base) simp
    with False have "280 < length (format_tweet_analysis now analysis b e)"
      by (simp add: out length_hashtags)
    with False show ?thesis by (simp add: HARD_STOP_LENGTH_def base_def)
  qed
qed

lemma length_strftime: "length (strftime t) = 19"
  by (simp add: strftime_def pad4_def pad2_def)

lemma length_base_tweet:
  "length (base_tweet now b e) =
     70 + length (fmt_2f True (current_price b))
        + length (fmt_2f False (price_change_percentage_24h b))
        + length (fmt_2f True (current_price e))
        + length (fmt_2f False (price_change_percentage_24h e))"
  by (simp add: base_tweet_def length_strftime)

lemma huge_price: "(of_nat (10 ^ 263) :: rat) \<le> 2 ^ 1000"
  by simp

section \<open>The claim about the formatter\<close>

text \<open>
  C2, as amended.  The header of a post is 70 characters and the four rendered numbers.
  The formatted post has at most \<open>HARD_STOP_LENGTH\<close> (280) characters exactly when the
  header has at most 262: then the lines taken and the closing block fit by the loop's
  test, and the filler is only added to a post shorter than 220.  With a longer header no
  line is taken and header and closing block alone pass the hard stop.
\<close>

theorem format_tweet_length:
  "(length (format_tweet_analysis now analysis btc_coin eth_coin) \<le> HARD_STOP_LENGTH
      \<longleftrightarrow> length (base_tweet now btc_coin eth_coin) \<le> 262)
   \<and> length (base_tweet now btc_coin eth_coin) =
       70 + length (fmt_2f True (current_price btc_coin))
          + length (fmt_2f False (price_change_percentage_24h btc_coin))
          + length (fmt_2f True (current_price eth_coin))
          + length (fmt_2f False (price_change_percentage_24h eth_coin))"
  using format_length_iff length_base_tweet by blast

lemma sample_base_text:
  "base_tweet sample_now btc_coin_50000 eth_coin_3000 =
     ''ETH/BTC Market Analysis - 2024-01-01 00:00:00'' @ [newline, newline]
     @ ''BTC: $50,000.00 (1.25%)'' @ [newline]
     @ ''ETH: $3,000.00 (-0.50%)'' @ [newline, newline]"
  by (simp add: fmt_defs coin_defs Let_def show_nat.simps)

theorem format_tweet_length_witness:
  "length (base_tweet sample_now btc_coin_50000 eth_coin_3000) = 96
   \<and> length (format_tweet_analysis sample_now sample_analysis btc_coin_50000 eth_coin_3000)
       \<le> HARD_STOP_LENGTH"
proof -
  have l: "length (base_tweet sample_now btc_coin_50000 eth_coin_3000) = 96"
    by (simp add: sample_base_text)
  show ?thesis
    using format_tweet_length [of sample_now sample_analysis btc_coin_50000 eth_coin_3000] l
    by simp
qed

text \<open>
  C2 as stated fails: with a BTC price of \<open>2 ^ 1000\<close> the price alone takes more than 263
  characters, and the formatted post is longer than the hard stop.
\<close>

theorem format_tweet_length_counterexample:
  "HARD_STOP_LENGTH
   < length (format_tweet_analysis sample_now sample_analysis btc_coin_huge eth_coin_3000)"
proof -
  have "263 < length (fmt_2f True (current_price btc_coin_huge))"
    by (rule fmt_2f_long) (simp add: btc_coin_huge_def)
  then have "\<not> length (base_tweet sample_now btc_coin_huge eth_coin_3000) \<le> 262"
    by (simp add: length_base_tweet)
  then show ?thesis
    using format_length_iff [of sample_now sample_analysis btc_coin_huge eth_coin_3000]
    by simp
qed

section \<open>Facts about the retry loops\<close>


lemmas world_defs = calm_world_def world_fetch_fails_def world_generation_fails_def
  world_history_fails_def world_zero_price_history_def world_publish_fails_def
  world_recent_duplicate_def coingecko_timeouts_def coingecko_refused_def claude_failures_def
  compose_clicks_def compose_no_button_def good_payload_def

declare get_crypto_data_loop.simps [simp del]
declare analyze_market_sentiment_loop.simps [simp del]
declare post_analysis_loop.simps [simp del]

lemma upper_symbols: "upper ''btc'' = ''BTC''" "upper ''eth'' = ''ETH''"
  by code_simp+

lemma good_payload_index:
  "index_by_symbol good_payload ''BTC'' = Some btc_coin_50000"
  "index_by_symbol good_payload ''ETH'' = Some eth_coin_3000"
  by (simp_all add: index_by_symbol_def good_payload_def btc_coin_50000_def eth_coin_3000_def
        upper_symbols)

lemma sample_tweet_text:
  "sample_tweet =
     ''ETH/BTC Market Analysis - 2024-01-01 00:00:00'' @ [newline, newline]
     @ ''BTC: $50,000.00 (1.25%)'' @ [newline]
     @ ''ETH: $3,000.00 (-0.50%)'' @ [newline, newline]
     @ ''Momentum is flat.'' @ [newline, newline] @ ''#Crypto #ETH #BTC''
     @ [newline] @ ''Detailed analysis available.''"
  by (simp add: sample_tweet_def format_tweet_analysis_def sample_base_text
        sample_analysis_def Let_def newline_def hashtags_def HARD_STOP_LENGTH_def MIN_LENGTH_def)

subsection \<open>The market-data loop\<close>

lemma fetch_loop_timeout:
  "retry_count < 3 \<Longrightarrow> api retry_count = Inl Timeout \<Longrightarrow>
   get_crypto_data_loop api retry_count =
     prepend [CoinGeckoGet, Sleep ((retry_count + 1) * 10)]
       (get_crypto_data_loop api (retry_count + 1))"
  by (subst get_crypto_data_loop.simps) (simp add: max_retries_def)

lemma fetch_loop_other:
  "retry_count < 3 \<Longrightarrow> api retry_count = Inl e \<Longrightarrow> e \<noteq> Timeout \<Longrightarrow>
   get_crypto_data_loop api retry_count = (None, [CoinGeckoGet, ErrorLog ''CoinGecko API'' (Exc e)])"
  by (subst get_crypto_data_loop.simps) (simp add: max_retries_def)

lemma fetch_loop_response:
  "retry_count < 3 \<Longrightarrow> api retry_count = Inr coins \<Longrightarrow>
   get_crypto_data_loop api retry_count =
     (if index_by_symbol coins ''BTC'' = None \<or> index_by_symbol coins ''ETH'' = None
      then (None, [CoinGeckoGet, ErrorLog ''Crypto Data'' (Lit ''Missing BTC or ETH data'')])
      else (Some (index_by_symbol coins), [CoinGeckoGet]))"
  by (subst get_crypto_data_loop.simps) (simp add: max_retries_def Let_def)

lemma fetch_loop_exhausted:
  "get_crypto_data_loop api 3 = (None, [ErrorLog ''CoinGecko API'' (Lit ''Maximum retries reached'')])"
  by (subst get_crypto_data_loop.simps) (simp add: max_retries_def)

lemma backoff_trace_simps:
  "backoff_trace call 0 = []"
  "backoff_trace call (Suc 0) = [call, Sleep 10]"
  "backoff_trace call 2 = [call, Sleep 10, call, Sleep 20]"
  "backoff_trace call 3 = [call, Sleep 10, call, Sleep 20, call, Sleep 30]"
  by (simp_all add: backoff_trace_def upt_rec)

lemma Suc_Suc_0: "Suc (Suc 0) = 2"
  by simp

lemma less_3_cases: "k < 3 \<Longrightarrow> k = 0 \<or> k = Suc 0 \<or> k = 2"
  by arith

lemma fetch_after_timeouts:
  assumes "k < 3" and "\<forall>i<k. api i = Inl Timeout"
  shows "get_crypto_data api =
         prepend (backoff_trace CoinGeckoGet k) (get_crypto_data_loop api k)"
  using less_3_cases [OF assms(1)] assms(2)
  by (auto simp: get_crypto_data_def backoff_trace_simps fetch_loop_timeout prepend_def Suc_Suc_0)

lemma fetch_three_timeouts:
  assumes "\<forall>i<3. api i = Inl Timeout"
  shows "get_crypto_data api =
         (None, [CoinGeckoGet, Sleep 10, CoinGeckoGet, Sleep 20, CoinGeckoGet, Sleep 30,
                 ErrorLog ''CoinGecko API'' (Lit ''Maximum retries reached'')])"
proof -
  have a: "api 0 = Inl Timeout" "api 1 = Inl Timeout" "api 2 = Inl Timeout"
    using assms by simp_all
  have "get_crypto_data_loop api 2 =
          prepend [CoinGeckoGet, Sleep 30] (get_crypto_data_loop api 3)"
    using fetch_loop_timeout [of 2 api] a by simp
  moreover have "get_crypto_data_loop api 1 =
          prepend [CoinGeckoGet, Sleep 20] (get_crypto_data_loop api 2)"
    using fetch_loop_timeout [of 1 api] a by (simp add: Suc_Suc_0)
  moreover have "get_crypto_data_loop api 0 =
          prepend [CoinGeckoGet, Sleep 10] (get_crypto_data_loop api 1)"
    using fetch_loop_timeout [of 0 api] a by simp
  ultimately show ?thesis
    by (simp add: get_crypto_data_def fetch_loop_exhausted prepend_def)
qed

subsection \<open>The generation loop\<close>

lemma analyze_loop_error:
  "retry_count < 3 \<Longrightarrow> data ''BTC'' = Some b \<Longrightarrow> data ''ETH'' = Some e \<Longrightarrow>
   api retry_count = Inl err \<Longrightarrow>
   analyze_market_sentiment_loop api now data retry_count =
     prepend [ClaudeCreate, Sleep ((retry_count + 1) * 10)]
       (analyze_market_sentiment_loop api now data (retry_count + 1))"
  by (subst analyze_market_sentiment_loop.simps) (simp add: max_retries_def)

lemma analyze_loop_answer:
  "retry_count < 3 \<Longrightarrow> data ''BTC'' = Some b \<Longrightarrow> data ''ETH'' = Some e \<Longrightarrow>
   api retry_count = Inr analysis \<Longrightarrow>
   analyze_market_sentiment_loop api now data retry_count =
     (Some (format_tweet_analysis now analysis b e), [ClaudeCreate])"
  by (subst analyze_market_sentiment_loop.simps) (simp add: max_retries_def)

lemma analyze_loop_exhausted:
  "analyze_market_sentiment_loop api now data 3 =
     (None, [ErrorLog ''Market Sentiment Analysis'' (Lit ''Maximum retries reached'')])"
  by (subst analyze_market_sentiment_loop.simps) (simp add: max_retries_def)

lemma analyze_after_errors:
  assumes "k < 3" and "\<forall>i<k. \<exists>err. api i = Inl err"
    and "data ''BTC'' = Some b" and "data ''ETH'' = Some e"
  shows "analyze_market_sentiment api now data =
         prepend (backoff_trace ClaudeCreate k) (analyze_market_sentiment_loop api now data k)"
proof -
  have step: "\<And>i. i < k \<Longrightarrow> analyze_market_sentiment_loop api now data i =
       prepend [ClaudeCreate, Sleep ((i + 1) * 10)] (analyze_market_sentiment_loop api now data (i + 1))"
  proof -
    fix i assume "i < k"
    with assms obtain err where "api i = Inl err" and "i < 3" by auto
    then show "analyze_market_sentiment_loop api now data i =
       prepend [ClaudeCreate, Sleep ((i + 1) * 10)] (analyze_market_sentiment_loop api now data (i + 1))"
      using analyze_loop_error [OF _ assms(3,4)] by blast
  qed
  from less_3_cases [OF assms(1)] show ?thesis
  proof (elim disjE)
    assume "k = 0"
    then show ?thesis
      by (simp add: analyze_market_sentiment_def backoff_trace_simps prepend_def)
  next
    assume k: "k = Suc 0"
    with step [of 0] show ?thesis
      by (simp add: analyze_market_sentiment_def backoff_trace_simps prepend_def)
  next
    assume k: "k = 2"
    with step [of 0] step [of 1] show ?thesis
      by (simp add: analyze_market_sentiment_def backoff_trace_simps prepend_def Suc_Suc_0)
  qed
qed

lemma analyze_three_errors:
  assumes "\<forall>i<3. \<exists>err. api i = Inl err"
    and "data ''BTC'' = Some b" and "data ''ETH'' = Some e"
  shows "analyze_market_sentiment api now data =
         (None, [ClaudeCreate, Sleep 10, ClaudeCreate, Sleep 20, ClaudeCreate, Sleep 30,
                 ErrorLog ''Market Sentiment Analysis'' (Lit ''Maximum retries reached'')])"
proof -
  obtain e0 e1 e2 where a: "api 0 = Inl e0" "api 1 = Inl e1" "api 2 = Inl e2"
    using assms(1) by (metis numeral_3_eq_3 zero_less_Suc one_less_numeral_iff semiring_norm(77)
        lessI numeral_2_eq_2 Suc_1 One_nat_def)
  have "analyze_market_sentiment_loop api now data 2 =
          prepend [ClaudeCreate, Sleep 30] (analyze_market_sentiment_loop api now data 3)"
    using analyze_loop_error [of 2 data b e api e2 now] a assms by simp
  moreover have "analyze_market_sentiment_loop api now data 1 =
          prepend [ClaudeCreate, Sleep 20] (analyze_market_sentiment_loop api now data 2)"
    using analyze_loop_error [of 1 data b e api e1 now] a assms by (simp add: Suc_Suc_0)
  moreover have "analyze_market_sentiment_loop api now data 0 =
          prepend [ClaudeCreate, Sleep 10] (analyze_market_sentiment_loop api now data 1)"
    using analyze_loop_error [of 0 data b e api e0 now] a assms by simp
  ultimately show ?thesis
    by (simp add: analyze_market_sentiment_def analyze_loop_exhausted prepend_def)
qed

lemma backoff_trace_events:
  "k < 3 \<Longrightarrow> ev \<in> set (backoff_trace call k) \<Longrightarrow> ev = call \<or> (\<exists>n. ev = Sleep n)"
  by (drule less_3_cases) (auto simp: backoff_trace_simps)

lemma fetch_first_other:
  assumes "k < 3" and "\<forall>i<k. api i = Inl Timeout" and "api k = Inl e" and "e \<noteq> Timeout"
  shows "get_crypto_data api =
         (None, backoff_trace CoinGeckoGet k @ [CoinGeckoGet, ErrorLog ''CoinGecko API'' (Exc e)])"
  using fetch_after_timeouts [OF assms(1,2)] fetch_loop_other [of k api e] assms
  by (simp add: prepend_def)

lemma fetch_first_response:
  assumes "k < 3" and "\<forall>i<k. api i = Inl Timeout" and "api k = Inr coins"
  shows "get_crypto_data api =
         (if index_by_symbol coins ''BTC'' = None \<or> index_by_symbol coins ''ETH'' = None
          then (None, backoff_trace CoinGeckoGet k
                      @ [CoinGeckoGet, ErrorLog ''Crypto Data'' (Lit ''Missing BTC or ETH data'')])
          else (Some (index_by_symbol coins), backoff_trace CoinGeckoGet k @ [CoinGeckoGet]))"
  using fetch_after_timeouts [OF assms(1,2)] fetch_loop_response [of k api coins] assms
  by (simp add: prepend_def)

lemma fetch_no_max_retries:
  assumes "k < 3" and "\<forall>i<k. api i = Inl Timeout" and "api k \<noteq> Inl Timeout"
  shows "ErrorLog ''CoinGecko API'' (Lit ''Maximum retries reached'')
         \<notin> set (snd (get_crypto_data api))"
proof (cases "api k")
  case (Inl e)
  with assms(3) have "e \<noteq> Timeout" by simp
  from fetch_first_other [OF assms(1,2) Inl this] backoff_trace_events [OF assms(1)]
  show ?thesis by auto
next
  case (Inr coins)
  from fetch_first_response [OF assms(1,2) Inr] backoff_trace_events [OF assms(1)]
  show ?thesis by (auto split: if_splits)
qed

lemma fetch_max_retries_iff:
  "ErrorLog ''CoinGecko API'' (Lit ''Maximum retries reached'') \<in> set (snd (get_crypto_data api))
   \<longleftrightarrow> (\<forall>i<3. api i = Inl Timeout)"
proof
  assume "\<forall>i<3. api i = Inl Timeout"
  from fetch_three_timeouts [OF this]
  show "ErrorLog ''CoinGecko API'' (Lit ''Maximum retries reached'') \<in> set (snd (get_crypto_data api))"
    by simp
next
  assume m: "ErrorLog ''CoinGecko API'' (Lit ''Maximum retries reached'') \<in> set (snd (get_crypto_data api))"
  have a0: "api 0 = Inl Timeout"
    using fetch_no_max_retries [of 0 api] m by auto
  have a1: "api 1 = Inl Timeout"
    using fetch_no_max_retries [of 1 api] m a0 by auto
  have a2: "api 2 = Inl Timeout"
    using fetch_no_max_retries [of 2 api] m a0 a1 less_3_cases [of _] 
    by (auto simp: less_Suc_eq numeral_2_eq_2)
  show "\<forall>i<3. api i = Inl Timeout"
  proof (intro allI impI)
    fix i :: nat assume "i < 3"
    from less_3_cases [OF this] a0 a1 a2 show "api i = Inl Timeout" by auto
  qed
qed

section \<open>Claims about the retrying components\<close>

text \<open>
  C3, as amended.  For the market-data fetch a retried failure is a timeout, for the
  analysis generation it is any exception.  After fewer than 3 such failures followed by a
  success the component returns the success, having made one attempt more than there were
  failures, with a pause of attempt times 10 seconds after each failed attempt.  After 3
  consecutive failures it returns the failure of exhausted retries after exactly 3
  attempts, with pauses of 10, 20 and 30 seconds after them.
\<close>

theorem retry_budget:
  "(k < 3 \<and> (\<forall>i<k. api i = Inl Timeout) \<and> api k = Inr coins
      \<and> index_by_symbol coins ''BTC'' \<noteq> None \<and> index_by_symbol coins ''ETH'' \<noteq> None
    \<longrightarrow> get_crypto_data api
        = (Some (index_by_symbol coins), backoff_trace CoinGeckoGet k @ [CoinGeckoGet]))
   \<and> ((\<forall>i<3. api i = Inl Timeout)
    \<longrightarrow> get_crypto_data api
        = (None, [CoinGeckoGet, Sleep 10, CoinGeckoGet, Sleep 20, CoinGeckoGet, Sleep 30,
                  ErrorLog ''CoinGecko API'' (Lit ''Maximum retries reached'')]))
   \<and> (k < 3 \<and> (\<forall>i<k. \<exists>err. gen i = Inl err) \<and> gen k = Inr analysis
      \<and> data ''BTC'' = Some btc_coin \<and> data ''ETH'' = Some eth_coin
    \<longrightarrow> analyze_market_sentiment gen now data
        = (Some (format_tweet_analysis now analysis btc_coin eth_coin),
           backoff_trace ClaudeCreate k @ [ClaudeCreate]))
   \<and> ((\<forall>i<3. \<exists>err. gen i = Inl err)
      \<and> data ''BTC'' = Some btc_coin \<and> data ''ETH'' = Some eth_coin
    \<longrightarrow> analyze_market_sentiment gen now data
        = (None, [ClaudeCreate, Sleep 10, ClaudeCreate, Sleep 20, ClaudeCreate, Sleep 30,
                  ErrorLog ''Market Sentiment Analysis'' (Lit ''Maximum retries reached'')]))"
proof (intro conjI impI)
  assume "k < 3 \<and> (\<forall>i<k. api i = Inl Timeout) \<and> api k = Inr coins
      \<and> index_by_symbol coins ''BTC'' \<noteq> None \<and> index_by_symbol coins ''ETH'' \<noteq> None"
  then show "get_crypto_data api
        = (Some (index_by_symbol coins), backoff_trace CoinGeckoGet k @ [CoinGeckoGet])"
    using fetch_first_response [of k api coins] by simp
next
  assume "\<forall>i<3. api i = Inl Timeout"
  then show "get_crypto_data api
        = (None, [CoinGeckoGet, Sleep 10, CoinGeckoGet, Sleep 20, CoinGeckoGet, Sleep 30,
                  ErrorLog ''CoinGecko API'' (Lit ''Maximum retries reached'')])"
    by (rule fetch_three_timeouts)
next
  assume h: "k < 3 \<and> (\<forall>i<k. \<exists>err. gen i = Inl err) \<and> gen k = Inr analysis
      \<and> data ''BTC'' = Some btc_coin \<and> data ''ETH'' = Some eth_coin"
  then have "analyze_market_sentiment gen now data =
         prepend (backoff_trace ClaudeCreate k) (analyze_market_sentiment_loop gen now data k)"
    using analyze_after_errors [of k gen data btc_coin eth_coin now] by blast
  moreover from h have "analyze_market_sentiment_loop gen now data k =
     (Some (format_tweet_analysis now analysis btc_coin eth_coin), [ClaudeCreate])"
    using analyze_loop_answer [of k data btc_coin eth_coin gen analysis now] by blast
  ultimately show "analyze_market_sentiment gen now data
        = (Some (format_tweet_analysis now analysis btc_coin eth_coin),
           backoff_trace ClaudeCreate k @ [ClaudeCreate])"
    by (simp add: prepend_def)
next
  assume "(\<forall>i<3. \<exists>err. gen i = Inl err)
      \<and> data ''BTC'' = Some btc_coin \<and> data ''ETH'' = Some eth_coin"
  then show "analyze_market_sentiment gen now data
        = (None, [ClaudeCreate, Sleep 10, ClaudeCreate, Sleep 20, ClaudeCreate, Sleep 30,
                  ErrorLog ''Market Sentiment Analysis'' (Lit ''Maximum retries reached'')])"
    using analyze_three_errors [of gen data btc_coin eth_coin now] by blast
qed

theorem retry_budget_witness:
  "coingecko_timeouts 2 0 = Inl Timeout \<and> coingecko_timeouts 2 1 = Inl Timeout
   \<and> coingecko_timeouts 2 2 = Inr good_payload
   \<and> index_by_symbol good_payload ''BTC'' = Some btc_coin_50000
   \<and> index_by_symbol good_payload ''ETH'' = Some eth_coin_3000
   \<and> get_crypto_data (coingecko_timeouts 2)
       = (Some (index_by_symbol good_payload),
          [CoinGeckoGet, Sleep 10, CoinGeckoGet, Sleep 20, CoinGeckoGet])
   \<and> claude_failures 2 0 = Inl APIError \<and> claude_failures 2 1 = Inl APIError
   \<and> claude_failures 2 2 = Inr sample_analysis
   \<and> analyze_market_sentiment (claude_failures 2) sample_now (index_by_symbol good_payload)
       = (Some sample_tweet, [ClaudeCreate, Sleep 10, ClaudeCreate, Sleep 20, ClaudeCreate])
   \<and> coingecko_timeouts 5 0 = Inl Timeout \<and> coingecko_timeouts 5 1 = Inl Timeout
   \<and> coingecko_timeouts 5 2 = Inl Timeout
   \<and> get_crypto_data (coingecko_timeouts 5)
       = (None, [CoinGeckoGet, Sleep 10, CoinGeckoGet, Sleep 20, CoinGeckoGet, Sleep 30,
                 ErrorLog ''CoinGecko API'' (Lit ''Maximum retries reached'')])
   \<and> analyze_market_sentiment (claude_failures 5) sample_now (index_by_symbol good_payload)
       = (None, [ClaudeCreate, Sleep 10, ClaudeCreate, Sleep 20, ClaudeCreate, Sleep 30,
                 ErrorLog ''Market Sentiment Analysis'' (Lit ''Maximum retries reached'')])"
  using retry_budget [where k = 2 and api = "coingecko_timeouts 2" and coins = good_payload
          and gen = "claude_failures 2" and analysis = sample_analysis
          and data = "index_by_symbol good_payload" and btc_coin = btc_coin_50000
          and eth_coin = eth_coin_3000 and now = sample_now]
        retry_budget [where k = 2 and api = "coingecko_timeouts 5" and coins = good_payload
          and gen = "claude_failures 5" and analysis = sample_analysis
          and data = "index_by_symbol good_payload" and btc_coin = btc_coin_50000
          and eth_coin = eth_coin_3000 and now = sample_now]
        good_payload_index
  by (simp add: coingecko_timeouts_def claude_failures_def backoff_trace_simps sample_tweet_def)

text \<open>
  C3 as stated fails at exactly three failures: the fourth call would succeed, but it is
  never made.
\<close>

theorem retry_budget_counterexample:
  "coingecko_timeouts 3 0 = Inl Timeout \<and> coingecko_timeouts 3 1 = Inl Timeout
   \<and> coingecko_timeouts 3 2 = Inl Timeout \<and> coingecko_timeouts 3 3 = Inr good_payload
   \<and> get_crypto_data (coingecko_timeouts 3)
       = (None, [CoinGeckoGet, Sleep 10, CoinGeckoGet, Sleep 20, CoinGeckoGet, Sleep 30,
                 ErrorLog ''CoinGecko API'' (Lit ''Maximum retries reached'')])
   \<and> claude_failures 3 3 = Inr sample_analysis
   \<and> analyze_market_sentiment (claude_failures 3) sample_now (index_by_symbol good_payload)
       = (None, [ClaudeCreate, Sleep 10, ClaudeCreate, Sleep 20, ClaudeCreate, Sleep 30,
                 ErrorLog ''Market Sentiment Analysis'' (Lit ''Maximum retries reached'')])"
  using fetch_three_timeouts [of "coingecko_timeouts 3"]
        analyze_three_errors [of "claude_failures 3" "index_by_symbol good_payload"
          btc_coin_50000 eth_coin_3000 sample_now]
        good_payload_index
  by (simp add: coingecko_timeouts_def claude_failures_def)

section \<open>The claim about what the fetch retries\<close>

text \<open>
  C4, as amended.  In the market-data fetch only a timeout is retried: after fewer than 3
  timeouts, any other exception of an attempt (a refused connection or an HTTP error as
  much as a malformed payload) ends the fetch at once with a failure, and so does a payload
  without BTC or ETH; no pause and no further request follows.  The failure of exhausted
  retries is logged exactly when the first 3 attempts all time out.
\<close>

theorem fetch_retries_timeouts_only:
  "(k < 3 \<and> (\<forall>i<k. api i = Inl Timeout) \<and> api k = Inl e \<and> e \<noteq> Timeout
    \<longrightarrow> get_crypto_data api
        = (None, backoff_trace CoinGeckoGet k
                 @ [CoinGeckoGet, ErrorLog ''CoinGecko API'' (Exc e)]))
   \<and> (k < 3 \<and> (\<forall>i<k. api i = Inl Timeout) \<and> api k = Inr coins
      \<and> (index_by_symbol coins ''BTC'' = None \<or> index_by_symbol coins ''ETH'' = None)
    \<longrightarrow> get_crypto_data api
        = (None, backoff_trace CoinGeckoGet k
                 @ [CoinGeckoGet, ErrorLog ''Crypto Data'' (Lit ''Missing BTC or ETH data'')]))
   \<and> (ErrorLog ''CoinGecko API'' (Lit ''Maximum retries reached'')
        \<in> set (snd (get_crypto_data api))
      \<longleftrightarrow> (\<forall>i<3. api i = Inl Timeout))"
proof (intro conjI impI)
  assume "k < 3 \<and> (\<forall>i<k. api i = Inl Timeout) \<and> api k = Inl e \<and> e \<noteq> Timeout"
  then show "get_crypto_data api
        = (None, backoff_trace CoinGeckoGet k
                 @ [CoinGeckoGet, ErrorLog ''CoinGecko API'' (Exc e)])"
    using fetch_first_other [of k api e] by blast
next
  assume "k < 3 \<and> (\<forall>i<k. api i = Inl Timeout) \<and> api k = Inr coins
      \<and> (index_by_symbol coins ''BTC'' = None \<or> index_by_symbol coins ''ETH'' = None)"
  then show "get_crypto_data api
        = (None, backoff_trace CoinGeckoGet k
                 @ [CoinGeckoGet, ErrorLog ''Crypto Data'' (Lit ''Missing BTC or ETH data'')])"
    using fetch_first_response [of k api coins] by auto
next
  show "ErrorLog ''CoinGecko API'' (Lit ''Maximum retries reached'')
        \<in> set (snd (get_crypto_data api))
      \<longleftrightarrow> (\<forall>i<3. api i = Inl Timeout)"
    by (rule fetch_max_retries_iff)
qed

theorem fetch_retries_timeouts_only_witness:
  "coingecko_timeouts_then_refused 0 = Inl Timeout
   \<and> coingecko_timeouts_then_refused 1 = Inl ConnectionError
   \<and> get_crypto_data coingecko_timeouts_then_refused
       = (None, [CoinGeckoGet, Sleep 10, CoinGeckoGet,
                 ErrorLog ''CoinGecko API'' (Exc ConnectionError)])
   \<and> coingecko_eth_only 0 = Inr [eth_coin_3000]
   \<and> index_by_symbol [eth_coin_3000] ''BTC'' = None
   \<and> get_crypto_data coingecko_eth_only
       = (None, [CoinGeckoGet, ErrorLog ''Crypto Data'' (Lit ''Missing BTC or ETH data'')])
   \<and> ErrorLog ''CoinGecko API'' (Lit ''Maximum retries reached'')
        \<notin> set (snd (get_crypto_data coingecko_eth_only))"
proof -
  have i: "index_by_symbol [eth_coin_3000] ''BTC'' = None"
    by (simp add: index_by_symbol_def eth_coin_3000_def upper_symbols)
  show ?thesis
    using fetch_retries_timeouts_only [where k = 1 and api = coingecko_timeouts_then_refused
            and e = ConnectionError and coins = "[eth_coin_3000]"]
          fetch_retries_timeouts_only [where k = 0 and api = coingecko_eth_only
            and e = ConnectionError and coins = "[eth_coin_3000]"]
          i
    by (simp add: coingecko_timeouts_then_refused_def coingecko_eth_only_def backoff_trace_simps)
qed

text \<open>
  C4 as stated fails: a refused connection on the first request is not retried; the fetch
  fails after one request, without a pause and without the log line of exhausted retries.
\<close>

theorem fetch_retries_counterexample:
  "coingecko_refused 0 = Inl ConnectionError
   \<and> get_crypto_data coingecko_refused
       = (None, [CoinGeckoGet, ErrorLog ''CoinGecko API'' (Exc ConnectionError)])"
  using fetch_first_other [of 0 coingecko_refused ConnectionError]
  by (simp add: coingecko_refused_def backoff_trace_simps)


section \<open>Facts about one cycle\<close>

lemma is_duplicate_empty: "is_duplicate_analysis tweet [] = Inr False"
  by (simp add: is_duplicate_analysis_def split: option.splits)

lemma format_nonempty: "format_tweet_analysis now analysis b e \<noteq> []"
  by (simp add: format_tweet_analysis_def base_tweet_def Let_def)

text \<open>What the loops do to the outside never includes composing a post.\<close>

lemma analyze_loop_cases:
  "retry_count < 3 \<Longrightarrow>
   (\<exists>a b e. analyze_market_sentiment_loop api now data retry_count
              = (Some (format_tweet_analysis now a b e), [ClaudeCreate]))
   \<or> (\<exists>evs. analyze_market_sentiment_loop api now data retry_count
              = prepend evs (analyze_market_sentiment_loop api now data (Suc retry_count))
            \<and> (\<forall>t. ComposePost t \<notin> set evs))"
  by (subst analyze_market_sentiment_loop.simps, subst (3) analyze_market_sentiment_loop.simps)
     (auto simp: max_retries_def split: option.splits sum.splits)

lemma analyze_loop_quiet:
  "retry_count \<le> 3 \<Longrightarrow>
   fst (analyze_market_sentiment_loop api now data retry_count) \<noteq> Some []
   \<and> (\<forall>t. ComposePost t \<notin> set (snd (analyze_market_sentiment_loop api now data retry_count)))"
proof (induction "3 - retry_count" arbitrary: retry_count)
  case 0
  then have "retry_count = 3" by simp
  then show ?case by (simp add: analyze_loop_exhausted)
next
  case (Suc n)
  then have lt: "retry_count < 3" and n: "n = 3 - Suc retry_count" and le: "Suc retry_count \<le> 3"
    by simp_all
  from Suc.hyps(1) [OF n le] analyze_loop_cases [OF lt, of api now data]
  show ?case by (auto simp: prepend_def format_nonempty)
qed

lemma analyze_quiet:
  assumes "analyze_market_sentiment api now data = (r, tr)"
  shows "r \<noteq> Some [] \<and> (\<forall>t. ComposePost t \<notin> set tr)"
  using analyze_loop_quiet [of 0 api now data] assms
  by (simp add: analyze_market_sentiment_def)

lemma fetch_loop_quiet:
  "retry_count \<le> 3 \<Longrightarrow> \<forall>t. ComposePost t \<notin> set (snd (get_crypto_data_loop api retry_count))"
proof (induction "3 - retry_count" arbitrary: retry_count)
  case 0
  then have "retry_count = 3" by simp
  then show ?case by (simp add: fetch_loop_exhausted)
next
  case (Suc n)
  then have lt: "retry_count < 3" and n: "n = 3 - Suc retry_count" and le: "Suc retry_count \<le> 3"
    by simp_all
  note IH = Suc.hyps(1) [OF n le]
  show ?case
  proof (cases "api retry_count")
    case (Inr coins)
    from fetch_loop_response [of retry_count api coins] lt Inr show ?thesis by simp
  next
    case (Inl e)
    show ?thesis
    proof (cases "e = Timeout")
      case True
      with Inl fetch_loop_timeout [of retry_count api] lt IH show ?thesis
        by (simp add: prepend_def)
    next
      case False
      from fetch_loop_other [of retry_count api e] lt Inl False show ?thesis by simp
    qed
  qed
qed

lemma fetch_quiet:
  assumes "get_crypto_data api = (r, tr)"
  shows "\<forall>t. ComposePost t \<notin> set tr"
  using fetch_loop_quiet [of 0 api] assms by (simp add: get_crypto_data_def)

lemma history_quiet:
  assumes "get_last_posts page = (posts, tr)"
  shows "\<forall>t. ComposePost t \<notin> set tr"
  using assms by (auto simp: get_last_posts_def split: sum.splits)

lemma post_first_event:
  "\<exists>ok evs. post_analysis ui tweet_text = (ok, ComposePost tweet_text # evs)"
  unfolding post_analysis_def
  by (subst post_analysis_loop.simps)
     (auto simp: max_retries_def prepend_def split: compose_outcome.splits)

lemma post_clicked:
  "ui 0 = Clicked \<Longrightarrow> post_analysis ui tweet_text = (True, [ComposePost tweet_text])"
  unfolding post_analysis_def
  by (subst post_analysis_loop.simps) (simp add: max_retries_def)

lemma post_loop_no_button:
  "retry_count < 3 \<Longrightarrow> ui retry_count = NoButton \<Longrightarrow>
   post_analysis_loop ui tweet_text retry_count =
     prepend [ComposePost tweet_text, ErrorLog [] (Lit ''Could not find post button''), Sleep 2]
       (post_analysis_loop ui tweet_text (Suc retry_count))"
  by (subst post_analysis_loop.simps) (simp add: max_retries_def)

lemma post_loop_exhausted:
  "post_analysis_loop ui tweet_text 3 =
     (False, [ErrorLog ''Tweet Creation'' (Lit ''Maximum retries reached'')])"
  by (subst post_analysis_loop.simps) (simp add: max_retries_def)

lemma post_never_button:
  "post_analysis compose_no_button tweet_text =
     (False,
      [ComposePost tweet_text, ErrorLog [] (Lit ''Could not find post button''), Sleep 2,
       ComposePost tweet_text, ErrorLog [] (Lit ''Could not find post button''), Sleep 2,
       ComposePost tweet_text, ErrorLog [] (Lit ''Could not find post button''), Sleep 2,
       ErrorLog ''Tweet Creation'' (Lit ''Maximum retries reached'')])"
  using post_loop_no_button [of 0 compose_no_button tweet_text]
        post_loop_no_button [of 1 compose_no_button tweet_text]
        post_loop_no_button [of 2 compose_no_button tweet_text]
  by (simp add: post_analysis_def compose_no_button_def post_loop_exhausted prepend_def Suc_Suc_0)

subsection \<open>The ends of a cycle, from what its stages return\<close>

lemma cycle_no_data:
  assumes "get_crypto_data (coingecko w) = (None, tr1)"
  shows "run_correlation_cycle w
         = (Inr NoCryptoData, tr1 @ [ErrorLog [] (Lit ''Failed to get crypto data'')])"
  using assms by (simp add: run_correlation_cycle_def run_correlation_cycle_try_def)

lemma cycle_no_analysis:
  assumes "get_crypto_data (coingecko w) = (Some data, tr1)"
    and "analyze_market_sentiment (claude w) (clock w) data = (None, tr2)"
  shows "run_correlation_cycle w
         = (Inr NoAnalysis, tr1 @ tr2 @ [ErrorLog [] (Lit ''Failed to generate market analysis'')])"
  using assms by (simp add: run_correlation_cycle_def run_correlation_cycle_try_def)

lemma cycle_checked:
  assumes "get_crypto_data (coingecko w) = (Some data, tr1)"
    and "analyze_market_sentiment (claude w) (clock w) data = (Some tweet, tr2)"
    and "get_last_posts (profile w) = (posts, tr3)"
  shows "run_correlation_cycle w =
     (case is_duplicate_analysis tweet posts of
        Inl e \<Rightarrow> (Inr (Caught e), tr1 @ tr2 @ tr3 @ [ErrorLog ''Correlation Cycle'' (Exc e)])
      | Inr dup \<Rightarrow>
          if dup then (Inr SkippedDuplicate, tr1 @ tr2 @ tr3)
          else if fst (post_analysis (compose w) tweet)
               then (Inr Posted, tr1 @ tr2 @ tr3 @ snd (post_analysis (compose w) tweet))
               else (Inr PostFailed,
                     tr1 @ tr2 @ tr3 @ snd (post_analysis (compose w) tweet)
                     @ [ErrorLog [] (Lit ''Failed to post analysis to Twitter'')]))"
proof -
  from analyze_quiet [OF assms(2)] have "tweet \<noteq> []" by simp
  with assms show ?thesis
    by (simp add: run_correlation_cycle_def run_correlation_cycle_try_def
          split: sum.splits prod.splits)
qed

lemma cycle_returns: "\<exists>x. fst (run_correlation_cycle w) = Inr x"
  by (simp add: run_correlation_cycle_def split: prod.splits sum.splits)

subsection \<open>The stages in the sample worlds\<close>

lemma calm_fetch:
  "get_crypto_data (coingecko_timeouts 0) = (Some (index_by_symbol good_payload), [CoinGeckoGet])"
  using fetch_first_response [of 0 "coingecko_timeouts 0" good_payload] good_payload_index
  by (simp add: coingecko_timeouts_def backoff_trace_simps)

lemma calm_analyze:
  "analyze_market_sentiment (claude_failures 0) sample_now (index_by_symbol good_payload)
   = (Some sample_tweet, [ClaudeCreate])"
  using analyze_loop_answer [of 0 "index_by_symbol good_payload" btc_coin_50000 eth_coin_3000
          "claude_failures 0" sample_analysis sample_now] good_payload_index
  by (simp add: analyze_market_sentiment_def claude_failures_def sample_tweet_def)

lemma refused_fetch:
  "get_crypto_data coingecko_refused
   = (None, [CoinGeckoGet, ErrorLog ''CoinGecko API'' (Exc ConnectionError)])"
  using fetch_first_other [of 0 coingecko_refused ConnectionError]
  by (simp add: coingecko_refused_def backoff_trace_simps)

lemma failing_analyze:
  "analyze_market_sentiment (claude_failures 3) sample_now (index_by_symbol good_payload)
   = (None, [ClaudeCreate, Sleep 10, ClaudeCreate, Sleep 20, ClaudeCreate, Sleep 30,
             ErrorLog ''Market Sentiment Analysis'' (Lit ''Maximum retries reached'')])"
  using analyze_three_errors [of "claude_failures 3" "index_by_symbol good_payload"
          btc_coin_50000 eth_coin_3000 sample_now] good_payload_index
  by (simp add: claude_failures_def)

lemma sample_tweet_parse: "extract_price_data sample_tweet = Some candidate_data"
  by (simp add: sample_tweet_text newline_def candidate_data_def parse_defs dt_defs)

lemma sample_tweet_zero_history:
  "is_duplicate_analysis sample_tweet [post_zero_btc] = Inl ZeroDivisionError"
  using ex_zero by (simp add: is_duplicate_analysis_def sample_tweet_parse duplicate_loop_zero
        del: duplicate_loop.simps(2))

lemma sample_tweet_recent_history:
  "is_duplicate_analysis sample_tweet [post_10s_earlier] = Inr True"
  using duplicate_loop_first_match [of "[]" candidate_data post_10s_earlier "[]"] ex_10
  by (simp add: is_duplicate_analysis_def sample_tweet_parse del: duplicate_loop.simps(2))

section \<open>Claims about one cycle\<close>

text \<open>
  C5, as amended.  A cycle always returns; nothing leaves it as an exception.  A failed
  fetch, a failed generation, an exception of the duplicate check and a failed publish each
  end the cycle with that one outcome and its error line in the log, after the events of
  the stages run so far.  A failed read of the history is different: it is caught and
  logged where it happens, the history counts as empty, and the cycle goes on to publish.
\<close>

theorem cycle_absorbs_failures:
  "(\<exists>x. fst (run_correlation_cycle w) = Inr x)
   \<and> (get_crypto_data (coingecko w) = (None, tr1) \<longrightarrow>
        run_correlation_cycle w
        = (Inr NoCryptoData, tr1 @ [ErrorLog [] (Lit ''Failed to get crypto data'')]))
   \<and> (get_crypto_data (coingecko w) = (Some data, tr1)
      \<and> analyze_market_sentiment (claude w) (clock w) data = (None, tr2) \<longrightarrow>
        run_correlation_cycle w
        = (Inr NoAnalysis, tr1 @ tr2 @ [ErrorLog [] (Lit ''Failed to generate market analysis'')]))
   \<and> (get_crypto_data (coingecko w) = (Some data, tr1)
      \<and> analyze_market_sentiment (claude w) (clock w) data = (Some tweet, tr2)
      \<and> get_last_posts (profile w) = (posts, tr3) \<longrightarrow>
        (is_duplicate_analysis tweet posts = Inl e \<longrightarrow>
           run_correlation_cycle w
           = (Inr (Caught e), tr1 @ tr2 @ tr3 @ [ErrorLog ''Correlation Cycle'' (Exc e)]))
        \<and> (is_duplicate_analysis tweet posts = Inr False
           \<and> post_analysis (compose w) tweet = (False, tr4) \<longrightarrow>
           run_correlation_cycle w
           = (Inr PostFailed,
              tr1 @ tr2 @ tr3 @ tr4 @ [ErrorLog [] (Lit ''Failed to post analysis to Twitter'')]))
        \<and> (profile w = Inl e \<and> post_analysis (compose w) tweet = (True, tr4) \<longrightarrow>
           posts = [] \<and> tr3 = [ProfileRead, ErrorLog ''Get Last Posts'' (Exc e)]
           \<and> run_correlation_cycle w = (Inr Posted, tr1 @ tr2 @ tr3 @ tr4)))"
proof (intro conjI impI)
  show "\<exists>x. fst (run_correlation_cycle w) = Inr x"
    by (rule cycle_returns)
next
  assume "get_crypto_data (coingecko w) = (None, tr1)"
  then show "run_correlation_cycle w
        = (Inr NoCryptoData, tr1 @ [ErrorLog [] (Lit ''Failed to get crypto data'')])"
    by (rule cycle_no_data)
next
  assume "get_crypto_data (coingecko w) = (Some data, tr1)
      \<and> analyze_market_sentiment (claude w) (clock w) data = (None, tr2)"
  then show "run_correlation_cycle w
        = (Inr NoAnalysis, tr1 @ tr2 @ [ErrorLog [] (Lit ''Failed to generate market analysis'')])"
    using cycle_no_analysis by blast
next
  assume h: "get_crypto_data (coingecko w) = (Some data, tr1)
      \<and> analyze_market_sentiment (claude w) (clock w) data = (Some tweet, tr2)
      \<and> get_last_posts (profile w) = (posts, tr3)"
  then have c: "run_correlation_cycle w =
     (case is_duplicate_analysis tweet posts of
        Inl e \<Rightarrow> (Inr (Caught e), tr1 @ tr2 @ tr3 @ [ErrorLog ''Correlation Cycle'' (Exc e)])
      | Inr dup \<Rightarrow>
          if dup then (Inr SkippedDuplicate, tr1 @ tr2 @ tr3)
          else if fst (post_analysis (compose w) tweet)
               then (Inr Posted, tr1 @ tr2 @ tr3 @ snd (post_analysis (compose w) tweet))
               else (Inr PostFailed,
                     tr1 @ tr2 @ tr3 @ snd (post_analysis (compose w) tweet)
                     @ [ErrorLog [] (Lit ''Failed to post analysis to Twitter'')]))"
    using cycle_checked by blast
  {
    assume "is_duplicate_analysis tweet posts = Inl e"
    with c show "run_correlation_cycle w
           = (Inr (Caught e), tr1 @ tr2 @ tr3 @ [ErrorLog ''Correlation Cycle'' (Exc e)])"
      by simp
  next
    assume "is_duplicate_analysis tweet posts = Inr False
           \<and> post_analysis (compose w) tweet = (False, tr4)"
    with c show "run_correlation_cycle w
           = (Inr PostFailed,
              tr1 @ tr2 @ tr3 @ tr4 @ [ErrorLog [] (Lit ''Failed to post analysis to Twitter'')])"
      by simp
  next
    assume p: "profile w = Inl e \<and> post_analysis (compose w) tweet = (True, tr4)"
    with h show e1: "posts = []" and e2: "tr3 = [ProfileRead, ErrorLog ''Get Last Posts'' (Exc e)]"
      by (auto simp: get_last_posts_def)
    from e1 have "is_duplicate_analysis tweet posts = Inr False"
      by (simp add: is_duplicate_empty)
    with c p show "run_correlation_cycle w = (Inr Posted, tr1 @ tr2 @ tr3 @ tr4)"
      by simp
  }
qed

theorem cycle_absorbs_failures_witness:
  "get_crypto_data (coingecko world_fetch_fails)
     = (None, [CoinGeckoGet, ErrorLog ''CoinGecko API'' (Exc ConnectionError)])
   \<and> run_correlation_cycle world_fetch_fails
     = (Inr NoCryptoData,
        [CoinGeckoGet, ErrorLog ''CoinGecko API'' (Exc ConnectionError),
         ErrorLog [] (Lit ''Failed to get crypto data'')])
   \<and> run_correlation_cycle world_generation_fails
     = (Inr NoAnalysis,
        [CoinGeckoGet, ClaudeCreate, Sleep 10, ClaudeCreate, Sleep 20, ClaudeCreate, Sleep 30,
         ErrorLog ''Market Sentiment Analysis'' (Lit ''Maximum retries reached''),
         ErrorLog [] (Lit ''Failed to generate market analysis'')])
   \<and> is_duplicate_analysis sample_tweet [post_zero_btc] = Inl ZeroDivisionError
   \<and> run_correlation_cycle world_zero_price_history
     = (Inr (Caught ZeroDivisionError),
        [CoinGeckoGet, ClaudeCreate, ProfileRead,
         ErrorLog ''Correlation Cycle'' (Exc ZeroDivisionError)])
   \<and> run_correlation_cycle world_publish_fails
     = (Inr PostFailed,
        [CoinGeckoGet, ClaudeCreate, ProfileRead,
         ComposePost sample_tweet, ErrorLog [] (Lit ''Could not find post button''), Sleep 2,
         ComposePost sample_tweet, ErrorLog [] (Lit ''Could not find post button''), Sleep 2,
         ComposePost sample_tweet, ErrorLog [] (Lit ''Could not find post button''), Sleep 2,
         ErrorLog ''Tweet Creation'' (Lit ''Maximum retries reached''),
         ErrorLog [] (Lit ''Failed to post analysis to Twitter'')])
   \<and> profile world_history_fails = Inl WebDriverError
   \<and> run_correlation_cycle world_history_fails
     = (Inr Posted,
        [CoinGeckoGet, ClaudeCreate, ProfileRead,
         ErrorLog ''Get Last Posts'' (Exc WebDriverError), ComposePost sample_tweet])"
proof -
  have f: "get_crypto_data (coingecko world_fetch_fails)
     = (None, [CoinGeckoGet, ErrorLog ''CoinGecko API'' (Exc ConnectionError)])"
    by (simp add: world_fetch_fails_def calm_world_def refused_fetch)
  have 1: "run_correlation_cycle world_fetch_fails
     = (Inr NoCryptoData,
        [CoinGeckoGet, ErrorLog ''CoinGecko API'' (Exc ConnectionError),
         ErrorLog [] (Lit ''Failed to get crypto data'')])"
    using cycle_absorbs_failures [where w = world_fetch_fails
            and ?tr1.0 = "[CoinGeckoGet, ErrorLog ''CoinGecko API'' (Exc ConnectionError)]"] f
    by simp
  have 2: "run_correlation_cycle world_generation_fails
     = (Inr NoAnalysis,
        [CoinGeckoGet, ClaudeCreate, Sleep 10, ClaudeCreate, Sleep 20, ClaudeCreate, Sleep 30,
         ErrorLog ''Market Sentiment Analysis'' (Lit ''Maximum retries reached''),
         ErrorLog [] (Lit ''Failed to generate market analysis'')])"
    using cycle_absorbs_failures [where w = world_generation_fails
            and data = "index_by_symbol good_payload" and ?tr1.0 = "[CoinGeckoGet]"
            and ?tr2.0 = "[ClaudeCreate, Sleep 10, ClaudeCreate, Sleep 20, ClaudeCreate, Sleep 30,
              ErrorLog ''Market Sentiment Analysis'' (Lit ''Maximum retries reached'')]"]
          calm_fetch failing_analyze
    by (simp add: world_generation_fails_def calm_world_def)
  have 3: "run_correlation_cycle world_zero_price_history
     = (Inr (Caught ZeroDivisionError),
        [CoinGeckoGet, ClaudeCreate, ProfileRead,
         ErrorLog ''Correlation Cycle'' (Exc ZeroDivisionError)])"
    using cycle_absorbs_failures [where w = world_zero_price_history
            and data = "index_by_symbol good_payload" and ?tr1.0 = "[CoinGeckoGet]"
            and tweet = sample_tweet and ?tr2.0 = "[ClaudeCreate]"
            and posts = "[post_zero_btc]" and ?tr3.0 = "[ProfileRead]"
            and e = ZeroDivisionError]
          calm_fetch calm_analyze sample_tweet_zero_history
    by (simp add: world_zero_price_history_def calm_world_def get_last_posts_def)
  have 4: "run_correlation_cycle world_publish_fails
     = (Inr PostFailed,
        [CoinGeckoGet, ClaudeCreate, ProfileRead,
         ComposePost sample_tweet, ErrorLog [] (Lit ''Could not find post button''), Sleep 2,
         ComposePost sample_tweet, ErrorLog [] (Lit ''Could not find post button''), Sleep 2,
         ComposePost sample_tweet, ErrorLog [] (Lit ''Could not find post button''), Sleep 2,
         ErrorLog ''Tweet Creation'' (Lit ''Maximum retries reached''),
         ErrorLog [] (Lit ''Failed to post analysis to Twitter'')])"
    using cycle_absorbs_failures [where w = world_publish_fails
            and data = "index_by_symbol good_payload" and ?tr1.0 = "[CoinGeckoGet]"
            and tweet = sample_tweet and ?tr2.0 = "[ClaudeCreate]"
            and posts = "[]" and ?tr3.0 = "[ProfileRead]"
            and ?tr4.0 = "snd (post_analysis compose_no_button sample_tweet)"]
          calm_fetch calm_analyze post_never_button [of sample_tweet]
    by (simp add: world_publish_fails_def calm_world_def get_last_posts_def is_duplicate_empty)
  have 5: "run_correlation_cycle world_history_fails
     = (Inr Posted,
        [CoinGeckoGet, ClaudeCreate, ProfileRead,
         ErrorLog ''Get Last Posts'' (Exc WebDriverError), ComposePost sample_tweet])"
    using cycle_absorbs_failures [where w = world_history_fails
            and data = "index_by_symbol good_payload" and ?tr1.0 = "[CoinGeckoGet]"
            and tweet = sample_tweet and ?tr2.0 = "[ClaudeCreate]"
            and posts = "[]" and ?tr3.0 = "[ProfileRead, ErrorLog ''Get Last Posts'' (Exc WebDriverError)]"
            and e = WebDriverError and ?tr4.0 = "[ComposePost sample_tweet]"]
          calm_fetch calm_analyze post_clicked [of compose_clicks sample_tweet]
    by (simp add: world_history_fails_def calm_world_def get_last_posts_def compose_clicks_def)
  have p: "profile world_history_fails = Inl WebDriverError"
    by (simp add: world_history_fails_def calm_world_def)
  from f 1 2 3 4 5 p sample_tweet_zero_history show ?thesis by simp
qed

text \<open>
  C5 as stated fails for the history read: when reading the profile page raises, the cycle
  does not end early with a failed stage; it publishes the post.
\<close>

theorem cycle_history_failure_counterexample:
  "profile world_history_fails = Inl WebDriverError
   \<and> run_correlation_cycle world_history_fails
     = (Inr Posted,
        [CoinGeckoGet, ClaudeCreate, ProfileRead,
         ErrorLog ''Get Last Posts'' (Exc WebDriverError), ComposePost sample_tweet])"
  using cycle_checked [of world_history_fails "index_by_symbol good_payload" "[CoinGeckoGet]"
          sample_tweet "[ClaudeCreate]" "[]"
          "[ProfileRead, ErrorLog ''Get Last Posts'' (Exc WebDriverError)]"]
        calm_fetch calm_analyze post_clicked [of compose_clicks sample_tweet]
  by (simp add: world_history_fails_def calm_world_def get_last_posts_def compose_clicks_def
        is_duplicate_empty)

text \<open>
  C6.  Let fetch and generation succeed and the history be read.  If the duplicate check
  answers true for the formatted post against that history, the cycle ends as a skip and no
  post is ever composed in it.  If the check answers false, as it does for every empty
  history, the cycle reaches the publish stage: the post is composed, and the cycle ends
  as posted or as a failed publish.
\<close>

theorem duplicate_decides_publish:
  assumes "get_crypto_data (coingecko w) = (Some data, tr1)"
    and "analyze_market_sentiment (claude w) (clock w) data = (Some tweet, tr2)"
    and "get_last_posts (profile w) = (posts, tr3)"
  shows "(is_duplicate_analysis tweet posts = Inr True \<longrightarrow>
            run_correlation_cycle w = (Inr SkippedDuplicate, tr1 @ tr2 @ tr3)
            \<and> (\<forall>t. ComposePost t \<notin> set (snd (run_correlation_cycle w))))
         \<and> (is_duplicate_analysis tweet posts = Inr False \<longrightarrow>
            ComposePost tweet \<in> set (snd (run_correlation_cycle w))
            \<and> (fst (run_correlation_cycle w) = Inr Posted
               \<or> fst (run_correlation_cycle w) = Inr PostFailed))
         \<and> (posts = [] \<longrightarrow> is_duplicate_analysis tweet posts = Inr False)"
proof (intro conjI impI allI)
  note c = cycle_checked [OF assms]
  {
    assume d: "is_duplicate_analysis tweet posts = Inr True"
    with c show s: "run_correlation_cycle w = (Inr SkippedDuplicate, tr1 @ tr2 @ tr3)"
      by simp
    fix t
    from fetch_quiet [OF assms(1)] analyze_quiet [OF assms(2)] history_quiet [OF assms(3)]
    show "ComposePost t \<notin> set (snd (run_correlation_cycle w))"
      by (simp add: s)
  next
    assume d: "is_duplicate_analysis tweet posts = Inr False"
    from post_first_event [of "compose w" tweet] obtain ok evs where
      p: "post_analysis (compose w) tweet = (ok, ComposePost tweet # evs)" by blast
    with c d show "ComposePost tweet \<in> set (snd (run_correlation_cycle w))"
      by simp
    from c d p show "fst (run_correlation_cycle w) = Inr Posted
               \<or> fst (run_correlation_cycle w) = Inr PostFailed"
      by simp
  next
    assume "posts = []"
    then show "is_duplicate_analysis tweet posts = Inr False"
      by (simp add: is_duplicate_empty)
  }
qed

theorem duplicate_decides_publish_witness:
  "get_crypto_data (coingecko world_recent_duplicate)
     = (Some (index_by_symbol good_payload), [CoinGeckoGet])
   \<and> analyze_market_sentiment (claude world_recent_duplicate) (clock world_recent_duplicate)
       (index_by_symbol good_payload) = (Some sample_tweet, [ClaudeCreate])
   \<and> get_last_posts (profile world_recent_duplicate) = ([post_10s_earlier], [ProfileRead])
   \<and> is_duplicate_analysis sample_tweet [post_10s_earlier] = Inr True
   \<and> run_correlation_cycle world_recent_duplicate
       = (Inr SkippedDuplicate, [CoinGeckoGet, ClaudeCreate, ProfileRead])
   \<and> get_last_posts (profile calm_world) = ([], [ProfileRead])
   \<and> is_duplicate_analysis sample_tweet [] = Inr False
   \<and> ComposePost sample_tweet \<in> set (snd (run_correlation_cycle calm_world))"
proof -
  have a: "get_crypto_data (coingecko world_recent_duplicate)
     = (Some (index_by_symbol good_payload), [CoinGeckoGet])"
    and b: "analyze_market_sentiment (claude world_recent_duplicate) (clock world_recent_duplicate)
       (index_by_symbol good_payload) = (Some sample_tweet, [ClaudeCreate])"
    and c: "get_last_posts (profile world_recent_duplicate) = ([post_10s_earlier], [ProfileRead])"
    by (simp_all add: world_recent_duplicate_def calm_world_def calm_fetch calm_analyze
          get_last_posts_def)
  have a': "get_crypto_data (coingecko calm_world)
     = (Some (index_by_symbol good_payload), [CoinGeckoGet])"
    and b': "analyze_market_sentiment (claude calm_world) (clock calm_world)
       (index_by_symbol good_payload) = (Some sample_tweet, [ClaudeCreate])"
    and c': "get_last_posts (profile calm_world) = ([], [ProfileRead])"
    by (simp_all add: calm_world_def calm_fetch calm_analyze get_last_posts_def)
  from duplicate_decides_publish [OF a b c] duplicate_decides_publish [OF a' b' c']
       sample_tweet_recent_history a b c c'
  show ?thesis by simp
qed

end
